theory Spec2Isabelle
  imports Main
begin

section \<open>Shared vocabulary: statuses, errors, JavaScript truthiness\<close>

text \<open>
  \<^verbatim>\<open>models/booking.ts\<close>: the \<^verbatim>\<open>BookingStatus\<close> enum. Timestamps are
  milliseconds since the epoch (\<^verbatim>\<open>Date.getTime()\<close>), money is counted in minor
  units (the \<^verbatim>\<open>DECIMAL(10, 2)\<close> column times 100), identifiers are strings.
\<close>

datatype BookingStatus = PENDING | RESERVED | CONFIRMED | CANCELLED | EXPIRED | REFUNDED

type_synonym timestamp = int
type_synonym money = int

text \<open>
  \<^verbatim>\<open>utils/errors.ts\<close>: one constructor per error class the handlers throw, with
  the constructor's arguments. \<open>DatabaseError\<close> stands for an exception raised by
  the \<^verbatim>\<open>pg\<close> driver (connection loss, constraint violation), \<open>TypeError\<close> for
  the JavaScript exception on reading a field of \<^verbatim>\<open>undefined\<close>.
\<close>

datatype error =
    BadRequestError string
  | ForbiddenError string
  | BookingNotFoundError string
  | InsufficientSeatsError string
  | InvalidBookingStateError BookingStatus string
  | ValidationError "string list"
  | DatabaseError string
  | TypeError string

text \<open>
  JavaScript truthiness of the optional fields the handlers test with \<^verbatim>\<open>!x\<close>,
  \<^verbatim>\<open>x && ...\<close> and \<^verbatim>\<open>x || d\<close>: \<^verbatim>\<open>undefined\<close>, \<^verbatim>\<open>null\<close>, \<^verbatim>\<open>0\<close> and
  the empty string are falsy.
\<close>

definition truthy_num :: "int option \<Rightarrow> bool" where
  "truthy_num v = (case v of None \<Rightarrow> False | Some n \<Rightarrow> n \<noteq> 0)"

definition truthy_str :: "string option \<Rightarrow> bool" where
  "truthy_str v = (case v of None \<Rightarrow> False | Some s \<Rightarrow> s \<noteq> [])"

definition num_or :: "int option \<Rightarrow> int \<Rightarrow> int" where
  "num_or v d = (case v of None \<Rightarrow> d | Some n \<Rightarrow> if n \<noteq> 0 then n else d)"

definition str_or :: "string option \<Rightarrow> string \<Rightarrow> string" where
  "str_or v d = (case v of None \<Rightarrow> d | Some s \<Rightarrow> if s \<noteq> [] then s else d)"

definition str_or_null :: "string option \<Rightarrow> string option" where
  "str_or_null v = (case v of None \<Rightarrow> None | Some s \<Rightarrow> if s \<noteq> [] then Some s else None)"

section \<open>Read store and the list-user-tickets query\<close>

text \<open>
  \<^verbatim>\<open>user_tickets_view\<close>, \<^verbatim>\<open>schedule_availability_view\<close> and
  \<^verbatim>\<open>projection_checkpoints\<close> of \<^verbatim>\<open>migrate.ts\<close>. A table is the list of its
  rows; the primary keys are kept by the upserts that write them.
\<close>

record ticket_view =
  tv_id :: string
  tv_user_id :: string
  tv_route_id :: string
  tv_route_name :: "string option"
  tv_schedule_id :: string
  tv_departure_time :: "timestamp option"
  tv_arrival_time :: "timestamp option"
  tv_origin_stop :: "string option"
  tv_destination_stop :: "string option"
  tv_seat_number :: "string option"
  tv_passenger_name :: string
  tv_passenger_email :: string
  tv_price :: money
  tv_currency :: string
  tv_status :: BookingStatus
  tv_created_at :: timestamp
  tv_updated_at :: timestamp

record schedule_availability =
  sa_schedule_id :: string
  sa_total_seats :: int
  sa_booked_seats :: int
  sa_updated_at :: timestamp

record checkpoint =
  cp_projection_name :: string
  cp_last_processed_event_id :: string
  cp_last_processed_at :: timestamp

record read_store =
  user_tickets_view :: "ticket_view list"
  schedule_availability_view :: "schedule_availability list"
  projection_checkpoints :: "checkpoint list"

text \<open>\<^verbatim>\<open>GetUserTicketsQuery\<close> and \<^verbatim>\<open>PaginatedResult<BookingView>\<close>.\<close>

record GetUserTicketsQuery =
  q_userId :: string
  q_status :: "BookingStatus option"
  q_page :: "int option"
  q_limit :: "int option"

record PaginatedResult =
  pr_data :: "ticket_view list"
  pr_total :: int
  pr_page :: int
  pr_limit :: int
  pr_totalPages :: int

definition DEFAULT_PAGE :: int where "DEFAULT_PAGE = 1"
definition DEFAULT_LIMIT :: int where "DEFAULT_LIMIT = 10"
definition MAX_LIMIT :: int where "MAX_LIMIT = 100"

text \<open>
  \<^verbatim>\<open>validateQuery\<close>: the guards are \<^verbatim>\<open>query.page && query.page < 1\<close> and
  \<^verbatim>\<open>query.limit && query.limit < 1\<close>, so a falsy page or limit passes.
\<close>

definition validateQuery :: "GetUserTicketsQuery \<Rightarrow> error + unit" where
  "validateQuery q =
     (if q_userId q = [] then Inl (BadRequestError ''userId is required'')
      else if truthy_num (q_page q) \<and> the (q_page q) < 1
        then Inl (BadRequestError ''page must be at least 1'')
      else if truthy_num (q_limit q) \<and> the (q_limit q) < 1
        then Inl (BadRequestError ''limit must be at least 1'')
      else Inr ())"

text \<open>
  The cache of ticket pages: the key
  \<^verbatim>\<open>user:{userId}:tickets:page:{page}:limit:{limit}\<close> is the triple of its
  parts. An entry past its TTL is an absent entry.
\<close>

type_synonym page_cache = "(string \<times> int \<times> int) \<rightharpoonup> PaginatedResult"

text \<open>
  \<^verbatim>\<open>Math.ceil(total / limit)\<close> on integers with \<open>limit \<ge> 1\<close>.
\<close>

definition ceil_div :: "int \<Rightarrow> int \<Rightarrow> int" where
  "ceil_div a b = - ((- a) div b)"

text \<open>
  \<^verbatim>\<open>getUserTicketsHandler\<close>: validation, page/limit/offset, cache read when no
  status filter is given, the count and the page of rows ordered by
  \<^verbatim>\<open>created_at DESC\<close> (rows with equal \<^verbatim>\<open>created_at\<close> keep their table order),
  cache write. It returns the cache after the call and the result.
\<close>

definition getUserTicketsHandler ::
  "GetUserTicketsQuery \<Rightarrow> read_store \<Rightarrow> page_cache \<Rightarrow> page_cache \<times> (error + PaginatedResult)" where
  "getUserTicketsHandler q rs cache =
     (case validateQuery q of
        Inl e \<Rightarrow> (cache, Inl e)
      | Inr _ \<Rightarrow>
          let page = num_or (q_page q) DEFAULT_PAGE;
              limit = min (num_or (q_limit q) DEFAULT_LIMIT) MAX_LIMIT;
              offset = (page - 1) * limit;
              cacheKey = (q_userId q, page, limit)
          in case (if q_status q = None then cache cacheKey else None) of
               Some cached \<Rightarrow> (cache, Inr cached)
             | None \<Rightarrow>
                 let matching = filter (\<lambda>r. tv_user_id r = q_userId q \<and>
                                   (case q_status q of None \<Rightarrow> True | Some s \<Rightarrow> tv_status r = s))
                                  (user_tickets_view rs);
                     total = int (length matching);
                     rows = take (nat limit) (drop (nat offset)
                              (sort_key (\<lambda>r. - tv_created_at r) matching));
                     result = \<lparr> pr_data = rows, pr_total = total, pr_page = page,
                                pr_limit = limit, pr_totalPages = ceil_div total limit \<rparr>
                 in ((if q_status q = None then (cache(cacheKey \<mapsto> result)) else cache), Inr result))"

section \<open>Domain events\<close>

text \<open>
  \<^verbatim>\<open>events/types.ts\<close>: the \<^verbatim>\<open>TicketEventType\<close> enum, the typed payloads and
  the \<^verbatim>\<open>DomainEvent\<close> envelope. The payload constructors list the fields of the
  payload interfaces in their order.
\<close>

datatype TicketEventType =
  TICKET_BOOKED | TICKET_RESERVED | TICKET_CONFIRMED | TICKET_CANCELLED | TICKET_EXPIRED | TICKET_REFUNDED

datatype payload =
    TicketBookedPayload string string string string "string option" string string money string
  | TicketReservedPayload string string string string "string option" string string money string timestamp
  | TicketConfirmedPayload string string string timestamp
  | TicketCancelledPayload string string "string option" timestamp "money option"
  | TicketExpiredPayload string string timestamp
  | TicketRefundedPayload string string money timestamp

record domain_event =
  ev_eventId :: string
  ev_eventType :: TicketEventType
  ev_aggregateId :: string
  ev_aggregateType :: string
  ev_timestamp :: timestamp
  ev_version :: int
  ev_correlationId :: "string option"
  ev_payload :: payload

text \<open>\<^verbatim>\<open>payload.bookingId\<close> and \<^verbatim>\<open>payload.userId\<close>: every payload has both.\<close>

fun payload_bookingId :: "payload \<Rightarrow> string" where
  "payload_bookingId (TicketBookedPayload b u r s seat pn pe pr cur) = b"
| "payload_bookingId (TicketReservedPayload b u r s seat pn pe pr cur ex) = b"
| "payload_bookingId (TicketConfirmedPayload b u pay at) = b"
| "payload_bookingId (TicketCancelledPayload b u reason at refund) = b"
| "payload_bookingId (TicketExpiredPayload b u at) = b"
| "payload_bookingId (TicketRefundedPayload b u refund at) = b"

fun payload_userId :: "payload \<Rightarrow> string" where
  "payload_userId (TicketBookedPayload b u r s seat pn pe pr cur) = u"
| "payload_userId (TicketReservedPayload b u r s seat pn pe pr cur ex) = u"
| "payload_userId (TicketConfirmedPayload b u pay at) = u"
| "payload_userId (TicketCancelledPayload b u reason at refund) = u"
| "payload_userId (TicketExpiredPayload b u at) = u"
| "payload_userId (TicketRefundedPayload b u refund at) = u"

section \<open>The projector\<close>

text \<open>
  \<^verbatim>\<open>projections/ticketProjector.ts\<close>. A Kafka message carries the parsed event
  (\<open>None\<close> for an empty \<^verbatim>\<open>message.value\<close>) and the \<^verbatim>\<open>eventType\<close> header
  (a type string outside the enum would take the \<^verbatim>\<open>default\<close> branch, as
  \<^verbatim>\<open>TICKET_EXPIRED\<close> and \<^verbatim>\<open>TICKET_REFUNDED\<close> do).
  The projector's statements run outside any transaction; \<open>now\<close> is the read
  database's \<^verbatim>\<open>NOW()\<close>. The Redis invalidations touch only the cache and swallow
  their own errors, so they are left out.
\<close>

record kafka_message =
  msg_value :: "domain_event option"
  msg_header_eventType :: "TicketEventType option"

text \<open>
  \<^verbatim>\<open>INSERT INTO user_tickets_view ... ON CONFLICT (id) DO UPDATE SET
  status = EXCLUDED.status, updated_at = NOW()\<close>.
\<close>

definition upsert_ticket_view :: "ticket_view \<Rightarrow> timestamp \<Rightarrow> ticket_view list \<Rightarrow> ticket_view list" where
  "upsert_ticket_view row now rows =
     (if list_ex (\<lambda>r. tv_id r = tv_id row) rows
      then map (\<lambda>r. if tv_id r = tv_id row
                      then r\<lparr>tv_status := tv_status row, tv_updated_at := now\<rparr> else r) rows
      else rows @ [row])"

text \<open>\<^verbatim>\<open>UPDATE user_tickets_view SET status = $1, updated_at = NOW() WHERE id = $2\<close>.\<close>

definition update_ticket_status :: "string \<Rightarrow> BookingStatus \<Rightarrow> timestamp \<Rightarrow> ticket_view list \<Rightarrow> ticket_view list" where
  "update_ticket_status bid st now rows =
     map (\<lambda>r. if tv_id r = bid then r\<lparr>tv_status := st, tv_updated_at := now\<rparr> else r) rows"

text \<open>
  \<^verbatim>\<open>updateScheduleAvailability\<close>: insert \<^verbatim>\<open>(schedule_id, 50, GREATEST(0, delta))\<close>,
  on conflict set \<^verbatim>\<open>booked_seats = GREATEST(0, booked_seats + delta)\<close>.
\<close>

definition updateScheduleAvailability ::
  "string \<Rightarrow> int \<Rightarrow> timestamp \<Rightarrow> schedule_availability list \<Rightarrow> schedule_availability list" where
  "updateScheduleAvailability scheduleId delta now rows =
     (if list_ex (\<lambda>r. sa_schedule_id r = scheduleId) rows
      then map (\<lambda>r. if sa_schedule_id r = scheduleId
                      then r\<lparr>sa_booked_seats := max 0 (sa_booked_seats r + delta),
                             sa_updated_at := now\<rparr> else r) rows
      else rows @ [\<lparr> sa_schedule_id = scheduleId, sa_total_seats = 50,
                      sa_booked_seats = max 0 delta, sa_updated_at = now \<rparr>])"

text \<open>\<^verbatim>\<open>updateCheckpoint\<close>: upsert of the row named \<^verbatim>\<open>ticket_projector\<close>.\<close>

definition updateCheckpoint :: "string \<Rightarrow> timestamp \<Rightarrow> checkpoint list \<Rightarrow> checkpoint list" where
  "updateCheckpoint eventId now rows =
     (if list_ex (\<lambda>r. cp_projection_name r = ''ticket_projector'') rows
      then map (\<lambda>r. if cp_projection_name r = ''ticket_projector''
                      then r\<lparr>cp_last_processed_event_id := eventId, cp_last_processed_at := now\<rparr>
                      else r) rows
      else rows @ [\<lparr> cp_projection_name = ''ticket_projector'',
                      cp_last_processed_event_id = eventId, cp_last_processed_at = now \<rparr>])"

text \<open>
  The row \<^verbatim>\<open>handleTicketBooked\<close> and \<^verbatim>\<open>handleTicketReserved\<close> insert: the payload's
  fields, the given status, \<^verbatim>\<open>created_at = event.timestamp\<close>; the display
  columns stay \<^verbatim>\<open>NULL\<close> and \<^verbatim>\<open>updated_at\<close> takes its default.
\<close>

definition new_ticket_view ::
  "string \<Rightarrow> string \<Rightarrow> string \<Rightarrow> string \<Rightarrow> string option \<Rightarrow> string \<Rightarrow> string \<Rightarrow> money \<Rightarrow> string
   \<Rightarrow> BookingStatus \<Rightarrow> timestamp \<Rightarrow> timestamp \<Rightarrow> ticket_view" where
  "new_ticket_view b u r s seat pn pe pr cur st created now =
     \<lparr> tv_id = b, tv_user_id = u, tv_route_id = r, tv_route_name = None, tv_schedule_id = s,
       tv_departure_time = None, tv_arrival_time = None, tv_origin_stop = None,
       tv_destination_stop = None, tv_seat_number = seat, tv_passenger_name = pn,
       tv_passenger_email = pe, tv_price = pr, tv_currency = cur, tv_status = st,
       tv_created_at = created, tv_updated_at = now \<rparr>"

text \<open>
  \<^verbatim>\<open>handleTicketBooked\<close> / \<^verbatim>\<open>handleTicketReserved\<close>: upsert with status
  \<^verbatim>\<open>'PENDING'\<close> / \<^verbatim>\<open>'RESERVED'\<close>, then \<^verbatim>\<open>updateScheduleAvailability(scheduleId, 1)\<close>.
  The two payloads that carry the inserted fields are accepted; with any other payload the
  \<^verbatim>\<open>NOT NULL\<close> columns receive \<^verbatim>\<open>undefined\<close> and the insert raises.
\<close>

definition upsert_projection ::
  "BookingStatus \<Rightarrow> domain_event \<Rightarrow> timestamp \<Rightarrow> read_store \<Rightarrow> error + read_store" where
  "upsert_projection st event now rs =
     (let ins = (\<lambda>b u r s seat pn pe pr cur.
                  Inr (rs\<lparr> user_tickets_view :=
                             upsert_ticket_view
                               (new_ticket_view b u r s seat pn pe pr cur st (ev_timestamp event) now)
                               now (user_tickets_view rs),
                           schedule_availability_view :=
                             updateScheduleAvailability s 1 now (schedule_availability_view rs) \<rparr>))
      in case ev_payload event of
           TicketBookedPayload b u r s seat pn pe pr cur \<Rightarrow> ins b u r s seat pn pe pr cur
         | TicketReservedPayload b u r s seat pn pe pr cur ex \<Rightarrow> ins b u r s seat pn pe pr cur
         | _ \<Rightarrow> Inl (DatabaseError ''not_null_violation''))"

definition handleTicketBooked :: "domain_event \<Rightarrow> timestamp \<Rightarrow> read_store \<Rightarrow> error + read_store" where
  "handleTicketBooked event now rs = upsert_projection PENDING event now rs"

definition handleTicketReserved :: "domain_event \<Rightarrow> timestamp \<Rightarrow> read_store \<Rightarrow> error + read_store" where
  "handleTicketReserved event now rs = upsert_projection RESERVED event now rs"

definition handleTicketConfirmed :: "domain_event \<Rightarrow> timestamp \<Rightarrow> read_store \<Rightarrow> error + read_store" where
  "handleTicketConfirmed event now rs =
     Inr (rs\<lparr> user_tickets_view :=
               update_ticket_status (payload_bookingId (ev_payload event)) CONFIRMED now
                 (user_tickets_view rs) \<rparr>)"

text \<open>
  \<^verbatim>\<open>handleTicketCancelled\<close>: read the row's \<^verbatim>\<open>schedule_id\<close>, set the status, and
  if the row was found call \<^verbatim>\<open>updateScheduleAvailability(schedule_id, -1)\<close>.
\<close>

definition handleTicketCancelled :: "domain_event \<Rightarrow> timestamp \<Rightarrow> read_store \<Rightarrow> error + read_store" where
  "handleTicketCancelled event now rs =
     (let bid = payload_bookingId (ev_payload event);
          booking = find (\<lambda>r. tv_id r = bid) (user_tickets_view rs);
          rs1 = rs\<lparr> user_tickets_view := update_ticket_status bid CANCELLED now (user_tickets_view rs) \<rparr>
      in case booking of
           None \<Rightarrow> Inr rs1
         | Some row \<Rightarrow>
             Inr (rs1\<lparr> schedule_availability_view :=
                         updateScheduleAvailability (tv_schedule_id row) (- 1) now
                           (schedule_availability_view rs1) \<rparr>))"

text \<open>
  \<^verbatim>\<open>ticketProjector.processMessage\<close>: an empty message returns at once; the event
  type is the header's, else the event's; the \<^verbatim>\<open>switch\<close> has four cases and a
  \<^verbatim>\<open>default\<close> that only logs; then the checkpoint is written; an error is rethrown.
\<close>

definition message_eventType :: "kafka_message \<Rightarrow> domain_event \<Rightarrow> TicketEventType" where
  "message_eventType msg event =
     (case msg_header_eventType msg of Some t \<Rightarrow> t | None \<Rightarrow> ev_eventType event)"

definition processMessage :: "kafka_message \<Rightarrow> timestamp \<Rightarrow> read_store \<Rightarrow> error + read_store" where
  "processMessage msg now rs =
     (case msg_value msg of
        None \<Rightarrow> Inr rs
      | Some event \<Rightarrow>
          let eventType = message_eventType msg event;
              handled = (case eventType of
                           TICKET_BOOKED \<Rightarrow> handleTicketBooked event now rs
                         | TICKET_RESERVED \<Rightarrow> handleTicketReserved event now rs
                         | TICKET_CONFIRMED \<Rightarrow> handleTicketConfirmed event now rs
                         | TICKET_CANCELLED \<Rightarrow> handleTicketCancelled event now rs
                         | _ \<Rightarrow> Inr rs)
          in case handled of
               Inl e \<Rightarrow> Inl e
             | Inr rs1 \<Rightarrow>
                 Inr (rs1\<lparr> projection_checkpoints :=
                             updateCheckpoint (ev_eventId event) now (projection_checkpoints rs1) \<rparr>))"

text \<open>
  \<^verbatim>\<open>createConsumer\<close> (\<^verbatim>\<open>messaging/kafka.ts\<close>): \<^verbatim>\<open>eachMessage\<close> calls the
  handler and swallows its error; the consumer applies it to the messages in order, each
  at its own time.
\<close>

definition eachMessage :: "timestamp \<times> kafka_message \<Rightarrow> read_store \<Rightarrow> read_store" where
  "eachMessage tm rs = (case processMessage (snd tm) (fst tm) rs of Inl e \<Rightarrow> rs | Inr rs1 \<Rightarrow> rs1)"

definition consume :: "(timestamp \<times> kafka_message) list \<Rightarrow> read_store \<Rightarrow> read_store" where
  "consume msgs rs = fold eachMessage msgs rs"

section \<open>Write store\<close>

text \<open>
  The tables of \<^verbatim>\<open>writeDbSchema\<close> (\<^verbatim>\<open>migrate.ts\<close>). \<^verbatim>\<open>bookings\<close> is keyed by
  its primary key \<^verbatim>\<open>id\<close>, \<^verbatim>\<open>seat_availability\<close> by its unique pair
  \<^verbatim>\<open>(schedule_id, seat_number)\<close>; \<^verbatim>\<open>booking_events\<close> is the list of its rows in
  insertion order (\<^verbatim>\<open>event_id\<close> is unique; \<^verbatim>\<open>(aggregate_id, version)\<close> has a
  plain index only). The \<^verbatim>\<open>bookings\<close> table has no version column.
\<close>

record booking_row =
  b_id :: string
  b_user_id :: string
  b_route_id :: string
  b_schedule_id :: string
  b_seat_number :: "string option"
  b_passenger_name :: string
  b_passenger_email :: string
  b_passenger_phone :: "string option"
  b_price :: money
  b_currency :: string
  b_status :: BookingStatus
  b_payment_id :: "string option"
  b_reserved_at :: "timestamp option"
  b_confirmed_at :: "timestamp option"
  b_cancelled_at :: "timestamp option"
  b_expires_at :: "timestamp option"
  b_created_at :: timestamp
  b_updated_at :: timestamp

datatype SeatStatus = AVAILABLE | LOCKED | BOOKED

record seat_row =
  seat_booking_id :: "string option"
  seat_status :: SeatStatus
  seat_locked_until :: "timestamp option"
  seat_updated_at :: timestamp

text \<open>The objects the handlers \<^verbatim>\<open>JSON.stringify\<close> into \<^verbatim>\<open>booking_events.payload\<close>.\<close>

datatype stored_payload =
    StoredBooked string string string string "string option" money
  | StoredReserved string string string string "string option" money timestamp
  | StoredConfirmed string string timestamp
  | StoredCancelled string string "string option" timestamp "money option"

record event_row =
  er_event_id :: string
  er_event_type :: TicketEventType
  er_aggregate_id :: string
  er_aggregate_type :: string
  er_payload :: stored_payload
  er_correlation_id :: "string option"
  er_version :: int

record write_store =
  bookings :: "string \<rightharpoonup> booking_row"
  seat_availability :: "(string \<times> string) \<rightharpoonup> seat_row"
  booking_events :: "event_row list"

text \<open>
  \<^verbatim>\<open>mapRowToBooking\<close> copies the row's columns into a \<^verbatim>\<open>Booking\<close>, field by
  field (\<^verbatim>\<open>parseFloat\<close> of the decimal column is the amount itself).
\<close>

type_synonym Booking = booking_row

definition mapRowToBooking :: "booking_row \<Rightarrow> Booking" where
  "mapRowToBooking row = row"

section \<open>What a handler run reads from outside\<close>

text \<open>
  \<open>e_now\<close> is the process clock (\<^verbatim>\<open>new Date()\<close>; all reads of one run are
  one instant), \<open>e_sql_now\<close> the database's (\<^verbatim>\<open>NOW()\<close>,
  \<^verbatim>\<open>CURRENT_TIMESTAMP\<close>); \<open>e_uuid k\<close> is the value of the
  \<open>k\<close>-th \<^verbatim>\<open>uuidv4()\<close> call of the run; \<open>e_fault = Some k\<close> makes the \<open>k\<close>-th
  statement sent on the transaction's connection raise (\<^verbatim>\<open>BEGIN\<close> is statement 0);
  \<open>e_publish_ok\<close> tells whether the Kafka send succeeds.
\<close>

record env =
  e_now :: timestamp
  e_sql_now :: timestamp
  e_uuid :: "nat \<Rightarrow> string"
  e_fault :: "nat option"
  e_publish_ok :: bool

section \<open>Transactions\<close>

text \<open>
  A statement on a connection: \<open>client\<close> is the connection's view of the database
  inside the open transaction and the number of statements sent so far. A
  transaction step returns the client and either the thrown error or a value.
\<close>

record client =
  c_db :: write_store
  c_count :: nat

type_synonym 'a tx = "client \<Rightarrow> client \<times> (error + 'a)"

definition tx_return :: "'a \<Rightarrow> 'a tx" where
  "tx_return a c = (c, Inr a)"

definition tx_throw :: "error \<Rightarrow> 'a tx" where
  "tx_throw e c = (c, Inl e)"

definition tx_bind :: "'a tx \<Rightarrow> ('a \<Rightarrow> 'b tx) \<Rightarrow> 'b tx" where
  "tx_bind m f c = (case m c of (c1, Inl e) \<Rightarrow> (c1, Inl e) | (c1, Inr a) \<Rightarrow> f a c1)"

text \<open>
  \<^verbatim>\<open>client.query\<close>: the statement raises if it is the faulty one, or if the
  database refuses it (a constraint violation); otherwise it changes the database
  and returns its rows.
\<close>

definition client_query :: "nat option \<Rightarrow> (write_store \<Rightarrow> error + write_store \<times> 'a) \<Rightarrow> 'a tx" where
  "client_query fault stmt c =
     (if fault = Some (c_count c)
      then (c\<lparr>c_count := Suc (c_count c)\<rparr>, Inl (DatabaseError ''statement failed''))
      else case stmt (c_db c) of
             Inl e \<Rightarrow> (c\<lparr>c_count := Suc (c_count c)\<rparr>, Inl e)
           | Inr (db1, rows) \<Rightarrow> (\<lparr> c_db = db1, c_count = Suc (c_count c) \<rparr>, Inr rows))"

definition no_rows :: "write_store \<Rightarrow> error + write_store \<times> unit" where
  "no_rows db = Inr (db, ())"

text \<open>
  \<^verbatim>\<open>writeDb.transaction\<close>: \<^verbatim>\<open>BEGIN\<close>, the callback, \<^verbatim>\<open>COMMIT\<close>; any exception
  leads to \<^verbatim>\<open>ROLLBACK\<close>, which leaves the database as it was at \<^verbatim>\<open>BEGIN\<close>, and is
  rethrown. The result is the database after the call and the outcome.
\<close>

definition transaction :: "nat option \<Rightarrow> 'a tx \<Rightarrow> write_store \<Rightarrow> write_store \<times> (error + 'a)" where
  "transaction fault callback db =
     (case client_query fault no_rows \<lparr> c_db = db, c_count = 0 \<rparr> of
        (c1, Inl e) \<Rightarrow> (db, Inl e)
      | (c1, Inr u) \<Rightarrow>
          (case callback c1 of
             (c2, Inl e) \<Rightarrow> (db, Inl e)
           | (c2, Inr result) \<Rightarrow>
               (case client_query fault no_rows c2 of
                  (c3, Inl e) \<Rightarrow> (db, Inl e)
                | (c3, Inr u) \<Rightarrow> (c_db c3, Inr result))))"

section \<open>SQL statements of the command handlers\<close>

text \<open>\<^verbatim>\<open>SELECT * FROM bookings WHERE id = $1 FOR UPDATE\<close>.\<close>

definition select_booking :: "string \<Rightarrow> write_store \<Rightarrow> error + write_store \<times> booking_row option" where
  "select_booking bid db = Inr (db, bookings db bid)"

text \<open>
  \<^verbatim>\<open>UPDATE bookings SET ... WHERE id = $n RETURNING *\<close>: the assignments are the
  function \<open>f\<close>; the \<^verbatim>\<open>BEFORE UPDATE\<close> trigger then sets \<^verbatim>\<open>updated_at\<close> to
  \<^verbatim>\<open>CURRENT_TIMESTAMP\<close>.
\<close>

definition update_booking ::
  "string \<Rightarrow> (booking_row \<Rightarrow> booking_row) \<Rightarrow> timestamp \<Rightarrow> write_store
   \<Rightarrow> error + write_store \<times> booking_row option" where
  "update_booking bid f sql_now db =
     (case bookings db bid of
        None \<Rightarrow> Inr (db, None)
      | Some row \<Rightarrow>
          let row1 = (f row)\<lparr>b_updated_at := sql_now\<rparr>
          in Inr (db\<lparr>bookings := (bookings db)(bid \<mapsto> row1)\<rparr>, Some row1))"

text \<open>\<^verbatim>\<open>INSERT INTO bookings (...) VALUES (...) RETURNING *\<close>; the primary key is unique.\<close>

definition insert_booking :: "booking_row \<Rightarrow> write_store \<Rightarrow> error + write_store \<times> booking_row" where
  "insert_booking row db =
     (case bookings db (b_id row) of
        Some old \<Rightarrow> Inl (DatabaseError ''unique_violation'')
      | None \<Rightarrow> Inr (db\<lparr>bookings := (bookings db)(b_id row \<mapsto> row)\<rparr>, row))"

text \<open>
  \<^verbatim>\<open>UPDATE seat_availability SET ... WHERE schedule_id = $a AND seat_number = $b\<close>,
  with the same trigger on \<^verbatim>\<open>updated_at\<close>.
\<close>

definition update_seat ::
  "string \<Rightarrow> string \<Rightarrow> (seat_row \<Rightarrow> seat_row) \<Rightarrow> timestamp \<Rightarrow> write_store \<Rightarrow> error + write_store \<times> unit" where
  "update_seat scheduleId seatNumber f sql_now db =
     (case seat_availability db (scheduleId, seatNumber) of
        None \<Rightarrow> Inr (db, ())
      | Some row \<Rightarrow>
          Inr (db\<lparr>seat_availability :=
                   (seat_availability db)((scheduleId, seatNumber) \<mapsto> (f row)\<lparr>seat_updated_at := sql_now\<rparr>)\<rparr>,
               ()))"

text \<open>\<^verbatim>\<open>INSERT INTO booking_events (...)\<close>; \<^verbatim>\<open>event_id\<close> is unique.\<close>

definition insert_event :: "event_row \<Rightarrow> write_store \<Rightarrow> error + write_store \<times> unit" where
  "insert_event ev db =
     (if list_ex (\<lambda>e. er_event_id e = er_event_id ev) (booking_events db)
      then Inl (DatabaseError ''unique_violation'')
      else Inr (db\<lparr>booking_events := booking_events db @ [ev]\<rparr>, ()))"

text \<open>
  The seat checks. Book:
  \<^verbatim>\<open>SELECT id FROM seat_availability WHERE schedule_id = $1 AND seat_number = $2
  AND status = 'AVAILABLE' FOR UPDATE\<close>. Reserve: the same with
  \<^verbatim>\<open>(status = 'AVAILABLE' OR (status = 'LOCKED' AND locked_until < NOW()))\<close>; a
  \<^verbatim>\<open>NULL\<close> \<^verbatim>\<open>locked_until\<close> does not satisfy the comparison. The result is whether a
  row came back.
\<close>

definition select_available_seat :: "string \<Rightarrow> string \<Rightarrow> write_store \<Rightarrow> error + write_store \<times> bool" where
  "select_available_seat scheduleId seatNumber db =
     Inr (db, case seat_availability db (scheduleId, seatNumber) of
                None \<Rightarrow> False
              | Some row \<Rightarrow> seat_status row = AVAILABLE)"

definition select_reservable_seat ::
  "string \<Rightarrow> string \<Rightarrow> timestamp \<Rightarrow> write_store \<Rightarrow> error + write_store \<times> bool" where
  "select_reservable_seat scheduleId seatNumber sql_now db =
     Inr (db, case seat_availability db (scheduleId, seatNumber) of
                None \<Rightarrow> False
              | Some row \<Rightarrow>
                  seat_status row = AVAILABLE \<or>
                  (seat_status row = LOCKED \<and>
                   (case seat_locked_until row of None \<Rightarrow> False | Some t \<Rightarrow> t < sql_now)))"

section \<open>Commands, results and the event publisher\<close>

text \<open>The command DTOs of \<^verbatim>\<open>models/booking.ts\<close> and the handlers' result types.\<close>

record BookTicketCommand =
  bk_userId :: string
  bk_routeId :: string
  bk_scheduleId :: string
  bk_seatNumber :: "string option"
  bk_passengerName :: string
  bk_passengerEmail :: string
  bk_passengerPhone :: "string option"
  bk_price :: money
  bk_currency :: "string option"

record ReserveTicketCommand =
  rv_userId :: string
  rv_routeId :: string
  rv_scheduleId :: string
  rv_seatNumber :: "string option"
  rv_passengerName :: string
  rv_passengerEmail :: string
  rv_passengerPhone :: "string option"
  rv_price :: money
  rv_currency :: "string option"
  rv_reservationDurationMinutes :: "int option"

record ConfirmTicketCommand =
  cf_bookingId :: string
  cf_paymentId :: string

record CancelTicketCommand =
  cn_bookingId :: string
  cn_userId :: "string option"
  cn_reason :: "string option"

record ReserveTicketResult =
  rr_booking :: Booking
  rr_expiresAt :: timestamp

record CancelTicketResult =
  cr_booking :: Booking
  cr_refundAmount :: "money option"

text \<open>
  The state the command side works on: the write database and the messages sent to the
  \<^verbatim>\<open>ticket-events\<close> topic, oldest first.
\<close>

record system =
  wdb :: write_store
  bus :: "domain_event list"

text \<open>
  \<^verbatim>\<open>events/publisher.ts\<close>: \<^verbatim>\<open>createBaseEvent\<close> and the four publish functions
  the handlers call. Every handler wraps the call in \<^verbatim>\<open>try\<close>/\<^verbatim>\<open>catch\<close> and only
  logs a failure, so \<open>publishEvent\<close> with a failing send leaves the topic as it is.
\<close>

definition createBaseEvent ::
  "string \<Rightarrow> timestamp \<Rightarrow> TicketEventType \<Rightarrow> string \<Rightarrow> string option \<Rightarrow> payload \<Rightarrow> domain_event" where
  "createBaseEvent uuid now eventType aggregateId correlationId pl =
     \<lparr> ev_eventId = uuid, ev_eventType = eventType, ev_aggregateId = aggregateId,
       ev_aggregateType = ''Booking'', ev_timestamp = now, ev_version = 1,
       ev_correlationId = correlationId, ev_payload = pl \<rparr>"

definition publishEvent :: "bool \<Rightarrow> domain_event \<Rightarrow> domain_event list \<Rightarrow> domain_event list" where
  "publishEvent ok event topic = (if ok then topic @ [event] else topic)"

definition ticketBookedEvent :: "string \<Rightarrow> timestamp \<Rightarrow> Booking \<Rightarrow> string option \<Rightarrow> domain_event" where
  "ticketBookedEvent uuid now booking correlationId =
     createBaseEvent uuid now TICKET_BOOKED (b_id booking) correlationId
       (TicketBookedPayload (b_id booking) (b_user_id booking) (b_route_id booking)
          (b_schedule_id booking) (b_seat_number booking) (b_passenger_name booking)
          (b_passenger_email booking) (b_price booking) (b_currency booking))"

definition ticketReservedEvent ::
  "string \<Rightarrow> timestamp \<Rightarrow> Booking \<Rightarrow> timestamp \<Rightarrow> string option \<Rightarrow> domain_event" where
  "ticketReservedEvent uuid now booking expiresAt correlationId =
     createBaseEvent uuid now TICKET_RESERVED (b_id booking) correlationId
       (TicketReservedPayload (b_id booking) (b_user_id booking) (b_route_id booking)
          (b_schedule_id booking) (b_seat_number booking) (b_passenger_name booking)
          (b_passenger_email booking) (b_price booking) (b_currency booking) expiresAt)"

definition ticketConfirmedEvent ::
  "string \<Rightarrow> timestamp \<Rightarrow> string \<Rightarrow> string \<Rightarrow> string \<Rightarrow> string option \<Rightarrow> domain_event" where
  "ticketConfirmedEvent uuid now bookingId userId paymentId correlationId =
     createBaseEvent uuid now TICKET_CONFIRMED bookingId correlationId
       (TicketConfirmedPayload bookingId userId paymentId now)"

definition ticketCancelledEvent ::
  "string \<Rightarrow> timestamp \<Rightarrow> string \<Rightarrow> string \<Rightarrow> string option \<Rightarrow> money option \<Rightarrow> string option
   \<Rightarrow> domain_event" where
  "ticketCancelledEvent uuid now bookingId userId reason refundAmount correlationId =
     createBaseEvent uuid now TICKET_CANCELLED bookingId correlationId
       (TicketCancelledPayload bookingId userId reason now refundAmount)"

section \<open>Book\<close>

text \<open>\<^verbatim>\<open>commands/bookTicket.ts\<close>.\<close>

definition validateBookTicketCommand :: "BookTicketCommand \<Rightarrow> error + unit" where
  "validateBookTicketCommand command =
     (if bk_userId command = [] then Inl (BadRequestError ''userId is required'')
      else if bk_routeId command = [] then Inl (BadRequestError ''routeId is required'')
      else if bk_scheduleId command = [] then Inl (BadRequestError ''scheduleId is required'')
      else if bk_passengerName command = [] then Inl (BadRequestError ''passengerName is required'')
      else if bk_passengerEmail command = [] then Inl (BadRequestError ''passengerEmail is required'')
      else if bk_price command \<le> 0 then Inl (BadRequestError ''price must be greater than 0'')
      else Inr ())"

definition seat_not_available :: "string \<Rightarrow> error" where
  "seat_not_available seatNumber = InsufficientSeatsError (''Seat '' @ seatNumber @ '' is not available'')"

definition book_callback :: "env \<Rightarrow> BookTicketCommand \<Rightarrow> string option \<Rightarrow> Booking tx" where
  "book_callback ev command correlationId =
     (let fault = e_fault ev; now = e_now ev; bookingId = e_uuid ev 0;
          seat = str_or (bk_seatNumber command) [];
          row = \<lparr> b_id = bookingId, b_user_id = bk_userId command, b_route_id = bk_routeId command,
                  b_schedule_id = bk_scheduleId command,
                  b_seat_number = str_or_null (bk_seatNumber command),
                  b_passenger_name = bk_passengerName command,
                  b_passenger_email = bk_passengerEmail command,
                  b_passenger_phone = str_or_null (bk_passengerPhone command),
                  b_price = bk_price command, b_currency = str_or (bk_currency command) ''USD'',
                  b_status = PENDING, b_payment_id = None, b_reserved_at = None,
                  b_confirmed_at = None, b_cancelled_at = None, b_expires_at = None,
                  b_created_at = now, b_updated_at = now \<rparr>;
          event = \<lparr> er_event_id = e_uuid ev 1, er_event_type = TICKET_BOOKED,
                    er_aggregate_id = bookingId, er_aggregate_type = ''Booking'',
                    er_payload = StoredBooked bookingId (bk_userId command) (bk_routeId command)
                                   (bk_scheduleId command) (bk_seatNumber command) (bk_price command),
                    er_correlation_id = str_or_null correlationId, er_version = 1 \<rparr>
      in tx_bind
           (if truthy_str (bk_seatNumber command)
            then tx_bind (client_query fault (select_available_seat (bk_scheduleId command) seat))
                   (\<lambda>found. if \<not> found then tx_throw (seat_not_available seat) else tx_return ())
            else tx_return ())
           (\<lambda>u. tx_bind (client_query fault (insert_booking row))
              (\<lambda>result. tx_bind
                 (if truthy_str (bk_seatNumber command)
                  then client_query fault
                         (update_seat (bk_scheduleId command) seat
                            (\<lambda>r. r\<lparr>seat_status := BOOKED, seat_booking_id := Some bookingId\<rparr>)
                            (e_sql_now ev))
                  else tx_return ())
                 (\<lambda>u. tx_bind (client_query fault (insert_event event))
                    (\<lambda>u. tx_return (mapRowToBooking result))))))"

definition bookTicketHandler ::
  "env \<Rightarrow> BookTicketCommand \<Rightarrow> string option \<Rightarrow> system \<Rightarrow> system \<times> (error + Booking)" where
  "bookTicketHandler ev command correlationId s =
     (case validateBookTicketCommand command of
        Inl e \<Rightarrow> (s, Inl e)
      | Inr u \<Rightarrow>
          (case transaction (e_fault ev) (book_callback ev command correlationId) (wdb s) of
             (db1, Inl e) \<Rightarrow> (s\<lparr>wdb := db1\<rparr>, Inl e)
           | (db1, Inr booking) \<Rightarrow>
               (\<lparr> wdb = db1,
                  bus = publishEvent (e_publish_ok ev)
                          (ticketBookedEvent (e_uuid ev 2) (e_now ev) booking correlationId) (bus s) \<rparr>,
                Inr booking)))"

section \<open>Reserve\<close>

text \<open>\<^verbatim>\<open>commands/reserveTicket.ts\<close>. The validation does not look at the duration.\<close>

definition DEFAULT_RESERVATION_DURATION_MINUTES :: int where
  "DEFAULT_RESERVATION_DURATION_MINUTES = 15"

definition validateReserveTicketCommand :: "ReserveTicketCommand \<Rightarrow> error + unit" where
  "validateReserveTicketCommand command =
     (if rv_userId command = [] then Inl (BadRequestError ''userId is required'')
      else if rv_routeId command = [] then Inl (BadRequestError ''routeId is required'')
      else if rv_scheduleId command = [] then Inl (BadRequestError ''scheduleId is required'')
      else if rv_passengerName command = [] then Inl (BadRequestError ''passengerName is required'')
      else if rv_passengerEmail command = [] then Inl (BadRequestError ''passengerEmail is required'')
      else if rv_price command \<le> 0 then Inl (BadRequestError ''price must be greater than 0'')
      else Inr ())"

definition reserve_callback ::
  "env \<Rightarrow> ReserveTicketCommand \<Rightarrow> int \<Rightarrow> string option \<Rightarrow> ReserveTicketResult tx" where
  "reserve_callback ev command reservationDuration correlationId =
     (let fault = e_fault ev; now = e_now ev; bookingId = e_uuid ev 0;
          seat = str_or (rv_seatNumber command) [];
          expiresAt = now + reservationDuration * 60 * 1000;
          row = \<lparr> b_id = bookingId, b_user_id = rv_userId command, b_route_id = rv_routeId command,
                  b_schedule_id = rv_scheduleId command,
                  b_seat_number = str_or_null (rv_seatNumber command),
                  b_passenger_name = rv_passengerName command,
                  b_passenger_email = rv_passengerEmail command,
                  b_passenger_phone = str_or_null (rv_passengerPhone command),
                  b_price = rv_price command, b_currency = str_or (rv_currency command) ''USD'',
                  b_status = RESERVED, b_payment_id = None, b_reserved_at = Some now,
                  b_confirmed_at = None, b_cancelled_at = None, b_expires_at = Some expiresAt,
                  b_created_at = now, b_updated_at = now \<rparr>;
          event = \<lparr> er_event_id = e_uuid ev 1, er_event_type = TICKET_RESERVED,
                    er_aggregate_id = bookingId, er_aggregate_type = ''Booking'',
                    er_payload = StoredReserved bookingId (rv_userId command) (rv_routeId command)
                                   (rv_scheduleId command) (rv_seatNumber command) (rv_price command)
                                   expiresAt,
                    er_correlation_id = str_or_null correlationId, er_version = 1 \<rparr>
      in tx_bind
           (if truthy_str (rv_seatNumber command)
            then tx_bind (client_query fault
                            (select_reservable_seat (rv_scheduleId command) seat (e_sql_now ev)))
                   (\<lambda>found. if \<not> found then tx_throw (seat_not_available seat) else tx_return ())
            else tx_return ())
           (\<lambda>u. tx_bind (client_query fault (insert_booking row))
              (\<lambda>bookingResult. tx_bind
                 (if truthy_str (rv_seatNumber command)
                  then client_query fault
                         (update_seat (rv_scheduleId command) seat
                            (\<lambda>r. r\<lparr>seat_status := LOCKED, seat_booking_id := Some bookingId,
                                   seat_locked_until := Some expiresAt\<rparr>)
                            (e_sql_now ev))
                  else tx_return ())
                 (\<lambda>u. tx_bind (client_query fault (insert_event event))
                    (\<lambda>u. tx_return \<lparr> rr_booking = mapRowToBooking bookingResult,
                                      rr_expiresAt = expiresAt \<rparr>)))))"

definition reserveTicketHandler ::
  "env \<Rightarrow> ReserveTicketCommand \<Rightarrow> string option \<Rightarrow> system \<Rightarrow> system \<times> (error + ReserveTicketResult)" where
  "reserveTicketHandler ev command correlationId s =
     (case validateReserveTicketCommand command of
        Inl e \<Rightarrow> (s, Inl e)
      | Inr u \<Rightarrow>
          let reservationDuration =
                num_or (rv_reservationDurationMinutes command) DEFAULT_RESERVATION_DURATION_MINUTES
          in (case transaction (e_fault ev)
                     (reserve_callback ev command reservationDuration correlationId) (wdb s) of
                (db1, Inl e) \<Rightarrow> (s\<lparr>wdb := db1\<rparr>, Inl e)
              | (db1, Inr result) \<Rightarrow>
                  (\<lparr> wdb = db1,
                     bus = publishEvent (e_publish_ok ev)
                             (ticketReservedEvent (e_uuid ev 2) (e_now ev) (rr_booking result)
                                (rr_expiresAt result) correlationId) (bus s) \<rparr>,
                   Inr result)))"

section \<open>Confirm\<close>

text \<open>
  \<^verbatim>\<open>commands/confirmTicket.ts\<close>. The two \<^verbatim>\<open>new Date()\<close> reads of one run are the
  one instant \<open>e_now\<close>. The event row's version is the literal \<^verbatim>\<open>2\<close>.
\<close>

definition validateConfirmTicketCommand :: "ConfirmTicketCommand \<Rightarrow> error + unit" where
  "validateConfirmTicketCommand command =
     (if cf_bookingId command = [] then Inl (BadRequestError ''bookingId is required'')
      else if cf_paymentId command = [] then Inl (BadRequestError ''paymentId is required'')
      else Inr ())"

definition returned_row :: "booking_row option \<Rightarrow> Booking tx" where
  "returned_row rows0 =
     (case rows0 of
        None \<Rightarrow> tx_throw (TypeError ''Cannot read properties of undefined'')
      | Some row \<Rightarrow> tx_return (mapRowToBooking row))"

definition confirm_callback :: "env \<Rightarrow> ConfirmTicketCommand \<Rightarrow> string option \<Rightarrow> Booking tx" where
  "confirm_callback ev command correlationId =
     (let fault = e_fault ev; now = e_now ev in
      tx_bind (client_query fault (select_booking (cf_bookingId command)))
        (\<lambda>currentBooking.
           case currentBooking of
             None \<Rightarrow> tx_throw (BookingNotFoundError (cf_bookingId command))
           | Some existingBooking \<Rightarrow>
               if b_status existingBooking \<noteq> RESERVED \<and> b_status existingBooking \<noteq> PENDING
               then tx_throw (InvalidBookingStateError (b_status existingBooking) ''RESERVED or PENDING'')
               else if (case b_expires_at existingBooking of None \<Rightarrow> False | Some t \<Rightarrow> t < now)
               then tx_throw (InvalidBookingStateError (b_status existingBooking) ''Reservation has expired'')
               else
                 tx_bind (client_query fault
                            (update_booking (cf_bookingId command)
                               (\<lambda>r. r\<lparr>b_status := CONFIRMED, b_payment_id := Some (cf_paymentId command),
                                      b_confirmed_at := Some now, b_updated_at := now,
                                      b_expires_at := None\<rparr>)
                               (e_sql_now ev)))
                   (\<lambda>result. tx_bind
                      (if truthy_str (b_seat_number existingBooking)
                       then client_query fault
                              (update_seat (b_schedule_id existingBooking)
                                 (str_or (b_seat_number existingBooking) [])
                                 (\<lambda>r. r\<lparr>seat_status := BOOKED, seat_locked_until := None\<rparr>)
                                 (e_sql_now ev))
                       else tx_return ())
                      (\<lambda>u. tx_bind
                         (client_query fault
                            (insert_event
                               \<lparr> er_event_id = e_uuid ev 0, er_event_type = TICKET_CONFIRMED,
                                 er_aggregate_id = cf_bookingId command,
                                 er_aggregate_type = ''Booking'',
                                 er_payload = StoredConfirmed (cf_bookingId command)
                                                (cf_paymentId command) now,
                                 er_correlation_id = str_or_null correlationId,
                                 er_version = 2 \<rparr>))
                         (\<lambda>u. returned_row result)))))"

definition confirmTicketHandler ::
  "env \<Rightarrow> ConfirmTicketCommand \<Rightarrow> string option \<Rightarrow> system \<Rightarrow> system \<times> (error + Booking)" where
  "confirmTicketHandler ev command correlationId s =
     (case validateConfirmTicketCommand command of
        Inl e \<Rightarrow> (s, Inl e)
      | Inr u \<Rightarrow>
          (case transaction (e_fault ev) (confirm_callback ev command correlationId) (wdb s) of
             (db1, Inl e) \<Rightarrow> (s\<lparr>wdb := db1\<rparr>, Inl e)
           | (db1, Inr booking) \<Rightarrow>
               (\<lparr> wdb = db1,
                  bus = publishEvent (e_publish_ok ev)
                          (ticketConfirmedEvent (e_uuid ev 1) (e_now ev) (b_id booking)
                             (b_user_id booking) (cf_paymentId command) correlationId) (bus s) \<rparr>,
                Inr booking)))"

section \<open>Cancel\<close>

text \<open>\<^verbatim>\<open>commands/cancelTicket.ts\<close>. The event row's version is the literal \<^verbatim>\<open>2\<close>.\<close>

definition validateCancelTicketCommand :: "CancelTicketCommand \<Rightarrow> error + unit" where
  "validateCancelTicketCommand command =
     (if cn_bookingId command = [] then Inl (BadRequestError ''bookingId is required'')
      else Inr ())"

definition cancellableStates :: "BookingStatus list" where
  "cancellableStates = [PENDING, RESERVED, CONFIRMED]"

definition money_or_undefined :: "money option \<Rightarrow> money option" where
  "money_or_undefined v = (case v of None \<Rightarrow> None | Some n \<Rightarrow> if n \<noteq> 0 then Some n else None)"

definition cancel_callback :: "env \<Rightarrow> CancelTicketCommand \<Rightarrow> string option \<Rightarrow> CancelTicketResult tx" where
  "cancel_callback ev command correlationId =
     (let fault = e_fault ev; now = e_now ev in
      tx_bind (client_query fault (select_booking (cn_bookingId command)))
        (\<lambda>currentBooking.
           case currentBooking of
             None \<Rightarrow> tx_throw (BookingNotFoundError (cn_bookingId command))
           | Some existingBooking \<Rightarrow>
               let actualUserId = str_or (cn_userId command) (b_user_id existingBooking) in
               if actualUserId = [] then tx_throw (BadRequestError ''userId is required'')
               else if truthy_str (cn_userId command) \<and>
                       b_user_id existingBooking \<noteq> str_or (cn_userId command) []
               then tx_throw (ForbiddenError ''You are not authorized to cancel this booking'')
               else if b_status existingBooking \<notin> set cancellableStates
               then tx_throw (InvalidBookingStateError (b_status existingBooking)
                                ''PENDING or RESERVED or CONFIRMED'')
               else
                 let refundAmount = (if b_status existingBooking = CONFIRMED
                                     then Some (b_price existingBooking) else None) in
                 tx_bind (client_query fault
                            (update_booking (cn_bookingId command)
                               (\<lambda>r. r\<lparr>b_status := CANCELLED, b_cancelled_at := Some now,
                                      b_updated_at := now, b_expires_at := None\<rparr>)
                               (e_sql_now ev)))
                   (\<lambda>updateResult. tx_bind
                      (if truthy_str (b_seat_number existingBooking)
                       then client_query fault
                              (update_seat (b_schedule_id existingBooking)
                                 (str_or (b_seat_number existingBooking) [])
                                 (\<lambda>r. r\<lparr>seat_status := AVAILABLE, seat_booking_id := None,
                                        seat_locked_until := None\<rparr>)
                                 (e_sql_now ev))
                       else tx_return ())
                      (\<lambda>u. tx_bind
                         (client_query fault
                            (insert_event
                               \<lparr> er_event_id = e_uuid ev 0, er_event_type = TICKET_CANCELLED,
                                 er_aggregate_id = cn_bookingId command,
                                 er_aggregate_type = ''Booking'',
                                 er_payload = StoredCancelled (cn_bookingId command) actualUserId
                                                (cn_reason command) now refundAmount,
                                 er_correlation_id = str_or_null correlationId,
                                 er_version = 2 \<rparr>))
                         (\<lambda>u. tx_bind (returned_row updateResult)
                            (\<lambda>booking. tx_return \<lparr> cr_booking = booking,
                                                    cr_refundAmount = refundAmount \<rparr>))))))"

definition cancelTicketHandler ::
  "env \<Rightarrow> CancelTicketCommand \<Rightarrow> string option \<Rightarrow> system \<Rightarrow> system \<times> (error + CancelTicketResult)" where
  "cancelTicketHandler ev command correlationId s =
     (case validateCancelTicketCommand command of
        Inl e \<Rightarrow> (s, Inl e)
      | Inr u \<Rightarrow>
          (case transaction (e_fault ev) (cancel_callback ev command correlationId) (wdb s) of
             (db1, Inl e) \<Rightarrow> (s\<lparr>wdb := db1\<rparr>, Inl e)
           | (db1, Inr result) \<Rightarrow>
               (\<lparr> wdb = db1,
                  bus = publishEvent (e_publish_ok ev)
                          (ticketCancelledEvent (e_uuid ev 1) (e_now ev) (b_id (cr_booking result))
                             (b_user_id (cr_booking result)) (cn_reason command)
                             (money_or_undefined (cr_refundAmount result)) correlationId) (bus s) \<rparr>,
                Inr result)))"

section \<open>The command entry points\<close>

text \<open>
  \<^verbatim>\<open>routes/commands.ts\<close> mounts four routes, one per handler; \<^verbatim>\<open>index.ts\<close>
  starts the projector's consumer and the HTTP server and nothing else. These four
  handlers are therefore all the code that writes the write database or publishes.
\<close>

datatype command =
    BookTicket BookTicketCommand
  | ReserveTicket ReserveTicketCommand
  | ConfirmTicket ConfirmTicketCommand
  | CancelTicket CancelTicketCommand

datatype command_result =
    BookTicketResult Booking
  | ReserveResult ReserveTicketResult
  | ConfirmTicketResult Booking
  | CancelResult CancelTicketResult

definition tag_result :: "('a \<Rightarrow> command_result) \<Rightarrow> system \<times> (error + 'a) \<Rightarrow> system \<times> (error + command_result)" where
  "tag_result tag out = (case out of (s, Inl e) \<Rightarrow> (s, Inl e) | (s, Inr r) \<Rightarrow> (s, Inr (tag r)))"

fun execute :: "env \<Rightarrow> command \<Rightarrow> string option \<Rightarrow> system \<Rightarrow> system \<times> (error + command_result)" where
  "execute ev (BookTicket c) correlationId s = tag_result BookTicketResult (bookTicketHandler ev c correlationId s)"
| "execute ev (ReserveTicket c) correlationId s = tag_result ReserveResult (reserveTicketHandler ev c correlationId s)"
| "execute ev (ConfirmTicket c) correlationId s = tag_result ConfirmTicketResult (confirmTicketHandler ev c correlationId s)"
| "execute ev (CancelTicket c) correlationId s = tag_result CancelResult (cancelTicketHandler ev c correlationId s)"

text \<open>A sequence of command calls, each with what it reads from outside.\<close>

fun run :: "(env \<times> command \<times> string option) list \<Rightarrow> system \<Rightarrow> system" where
  "run [] s = s"
| "run ((ev, cmd, correlationId) # rest) s = run rest (fst (execute ev cmd correlationId s))"

section \<open>The reserve route and its request schema\<close>

text \<open>
  \<^verbatim>\<open>middleware/validate.ts\<close>: \<^verbatim>\<open>schemas.reserveTicket\<close> and the \<^verbatim>\<open>validate\<close>
  middleware, which turns a \<^verbatim>\<open>ZodError\<close> into a \<^verbatim>\<open>ValidationError\<close> carrying the
  failing paths. The body is a JSON object whose fields have the schema's types. Zod's
  own \<^verbatim>\<open>uuid\<close> and \<^verbatim>\<open>email\<close> checks are parameters.
\<close>

record reserve_body =
  body_routeId :: string
  body_scheduleId :: string
  body_seatNumber :: "string option"
  body_passengerName :: string
  body_passengerEmail :: string
  body_passengerPhone :: "string option"
  body_price :: money
  body_currency :: "string option"
  body_reservationDurationMinutes :: "int option"

definition issue :: "bool \<Rightarrow> string \<Rightarrow> string list" where
  "issue ok path = (if ok then [] else [path])"

definition reserveTicket_schema :: "(string \<Rightarrow> bool) \<Rightarrow> (string \<Rightarrow> bool) \<Rightarrow> reserve_body \<Rightarrow> string list" where
  "reserveTicket_schema is_uuid is_email body =
     issue (is_uuid (body_routeId body)) ''routeId'' @
     issue (is_uuid (body_scheduleId body)) ''scheduleId'' @
     issue (case body_seatNumber body of None \<Rightarrow> True | Some x \<Rightarrow> length x \<le> 10) ''seatNumber'' @
     issue (2 \<le> length (body_passengerName body) \<and> length (body_passengerName body) \<le> 255)
       ''passengerName'' @
     issue (is_email (body_passengerEmail body)) ''passengerEmail'' @
     issue (case body_passengerPhone body of None \<Rightarrow> True | Some x \<Rightarrow> length x \<le> 20) ''passengerPhone'' @
     issue (0 < body_price body) ''price'' @
     issue (case body_currency body of None \<Rightarrow> True | Some x \<Rightarrow> length x = 3) ''currency'' @
     issue (case body_reservationDurationMinutes body of None \<Rightarrow> True | Some d \<Rightarrow> 5 \<le> d \<and> d \<le> 60)
       ''reservationDurationMinutes''"

text \<open>
  \<^verbatim>\<open>POST /reserve\<close> of \<^verbatim>\<open>routes/commands.ts\<close> after authentication: schema
  validation, then the handler with the caller's \<open>userId\<close>, the validated body
  (\<^verbatim>\<open>currency\<close> defaulted to \<^verbatim>\<open>USD\<close>) and the correlation id (the request
  header's, else a fresh one).
\<close>

definition reserve_route ::
  "(string \<Rightarrow> bool) \<Rightarrow> (string \<Rightarrow> bool) \<Rightarrow> env \<Rightarrow> string \<Rightarrow> reserve_body \<Rightarrow> string \<Rightarrow> system
   \<Rightarrow> system \<times> (error + ReserveTicketResult)" where
  "reserve_route is_uuid is_email ev userId body correlationId s =
     (case reserveTicket_schema is_uuid is_email body of
        [] \<Rightarrow>
          reserveTicketHandler ev
            \<lparr> rv_userId = userId, rv_routeId = body_routeId body,
              rv_scheduleId = body_scheduleId body, rv_seatNumber = body_seatNumber body,
              rv_passengerName = body_passengerName body,
              rv_passengerEmail = body_passengerEmail body,
              rv_passengerPhone = body_passengerPhone body, rv_price = body_price body,
              rv_currency = Some (case body_currency body of None \<Rightarrow> ''USD'' | Some x \<Rightarrow> x),
              rv_reservationDurationMinutes = body_reservationDurationMinutes body \<rparr>
            (Some correlationId) s
      | p # ps \<Rightarrow> (s, Inl (ValidationError (p # ps))))"

section \<open>Example data\<close>

text \<open>
  A read store with one reserved ticket of user \<open>U1\<close> on schedule \<open>S1\<close> and the
  schedule's counter at 1.
\<close>

definition ex_ticket :: ticket_view where
  "ex_ticket = new_ticket_view ''b1'' ''U1'' ''R1'' ''S1'' (Some ''A2'') ''Ann'' ''ann@example.com''
                 2500 ''USD'' RESERVED 1000 1000"

definition ex_read_store :: read_store where
  "ex_read_store =
     \<lparr> user_tickets_view = [ex_ticket],
       schedule_availability_view =
         [\<lparr> sa_schedule_id = ''S1'', sa_total_seats = 50, sa_booked_seats = 1, sa_updated_at = 1000 \<rparr>],
       projection_checkpoints = [] \<rparr>"

text \<open>The \<^verbatim>\<open>TICKET_EXPIRED\<close> message \<^verbatim>\<open>publishTicketExpired\<close> would send for that ticket.\<close>

definition ex_expired_message :: kafka_message where
  "ex_expired_message =
     \<lparr> msg_value = Some (createBaseEvent ''p7'' 400000 TICKET_EXPIRED ''b1'' None
                           (TicketExpiredPayload ''b1'' ''U1'' 400000)),
       msg_header_eventType = Some TICKET_EXPIRED \<rparr>"

text \<open>
  The messages \<^verbatim>\<open>publishTicketBooked\<close> and \<^verbatim>\<open>publishTicketConfirmed\<close> send for
  one booking, the stream of the two, and the read store the projector builds from it.
\<close>

definition ex_booked_message :: kafka_message where
  "ex_booked_message =
     \<lparr> msg_value = Some (createBaseEvent ''p1'' 1000 TICKET_BOOKED ''b1'' None
                           (TicketBookedPayload ''b1'' ''U1'' ''R1'' ''S1'' (Some ''A1'') ''Ann''
                              ''ann@example.com'' 2500 ''USD'')),
       msg_header_eventType = Some TICKET_BOOKED \<rparr>"

definition ex_confirmed_message :: kafka_message where
  "ex_confirmed_message =
     \<lparr> msg_value = Some (createBaseEvent ''p2'' 2000 TICKET_CONFIRMED ''b1'' None
                           (TicketConfirmedPayload ''b1'' ''U1'' ''P9'' 2000)),
       msg_header_eventType = Some TICKET_CONFIRMED \<rparr>"

definition ex_stream :: "(timestamp \<times> kafka_message) list" where
  "ex_stream = [(1001, ex_booked_message), (2001, ex_confirmed_message)]"

definition ex_confirmed_ticket :: ticket_view where
  "ex_confirmed_ticket = new_ticket_view ''b1'' ''U1'' ''R1'' ''S1'' (Some ''A1'') ''Ann'' ''ann@example.com''
                 2500 ''USD'' CONFIRMED 1000 2001"

definition ex_counter :: schedule_availability where
  "ex_counter = \<lparr> sa_schedule_id = ''S1'', sa_total_seats = 50, sa_booked_seats = 1, sa_updated_at = 1001 \<rparr>"

definition ex_confirmed_store :: read_store where
  "ex_confirmed_store =
     \<lparr> user_tickets_view = [ex_confirmed_ticket], schedule_availability_view = [ex_counter],
       projection_checkpoints = [] \<rparr>"

definition empty_read_store :: read_store where
  "empty_read_store = \<lparr> user_tickets_view = [], schedule_availability_view = [], projection_checkpoints = [] \<rparr>"

text \<open>
  The write side: two free seats of schedule \<open>S1\<close>, no bookings; a book and a
  reserve command; the state after the reservation (five minutes, made at time 0); a
  booking's life "book, confirm, cancel"; and a reservation followed by a confirmation
  attempt six minutes later.
\<close>

definition ex_env :: "timestamp \<Rightarrow> string \<Rightarrow> string \<Rightarrow> string \<Rightarrow> nat option \<Rightarrow> env" where
  "ex_env t a b c f =
     \<lparr> e_now = t, e_sql_now = t, e_uuid = (\<lambda>k. if k = 0 then a else if k = 1 then b else c),
       e_fault = f, e_publish_ok = True \<rparr>"

definition ex_seat_free :: seat_row where
  "ex_seat_free = \<lparr> seat_booking_id = None, seat_status = AVAILABLE, seat_locked_until = None,
                    seat_updated_at = 0 \<rparr>"

definition ex_system0 :: system where
  "ex_system0 =
     \<lparr> wdb = \<lparr> bookings = Map.empty,
               seat_availability = [(''S1'', ''A1'') \<mapsto> ex_seat_free, (''S1'', ''A2'') \<mapsto> ex_seat_free],
               booking_events = [] \<rparr>,
       bus = [] \<rparr>"

definition ex_book_command :: BookTicketCommand where
  "ex_book_command =
     \<lparr> bk_userId = ''U1'', bk_routeId = ''R1'', bk_scheduleId = ''S1'', bk_seatNumber = Some ''A1'',
       bk_passengerName = ''Ann'', bk_passengerEmail = ''ann@example.com'',
       bk_passengerPhone = None, bk_price = 2500, bk_currency = None \<rparr>"

definition ex_reserve_command :: ReserveTicketCommand where
  "ex_reserve_command =
     \<lparr> rv_userId = ''U1'', rv_routeId = ''R1'', rv_scheduleId = ''S1'', rv_seatNumber = Some ''A2'',
       rv_passengerName = ''Ann'', rv_passengerEmail = ''ann@example.com'',
       rv_passengerPhone = None, rv_price = 2500, rv_currency = None,
       rv_reservationDurationMinutes = Some 5 \<rparr>"

definition ex_reserved :: system where
  "ex_reserved = fst (execute (ex_env 0 ''b2'' ''e1'' ''p1'' None) (ReserveTicket ex_reserve_command) None ex_system0)"

definition ex_lifecycle :: "(env \<times> command \<times> string option) list" where
  "ex_lifecycle =
     [(ex_env 1000 ''b1'' ''e1'' ''p1'' None, BookTicket ex_book_command, None),
      (ex_env 2000 ''e2'' ''p2'' [] None,
         ConfirmTicket \<lparr> cf_bookingId = ''b1'', cf_paymentId = ''P9'' \<rparr>, None),
      (ex_env 3000 ''e3'' ''p3'' [] None,
         CancelTicket \<lparr> cn_bookingId = ''b1'', cn_userId = Some ''U1'', cn_reason = None \<rparr>, None)]"

definition ex_overdue_steps :: "(env \<times> command \<times> string option) list" where
  "ex_overdue_steps =
     [(ex_env 0 ''b2'' ''e1'' ''p1'' None, ReserveTicket ex_reserve_command, None),
      (ex_env 360000 ''e2'' ''p2'' [] None,
         ConfirmTicket \<lparr> cf_bookingId = ''b2'', cf_paymentId = ''P9'' \<rparr>, None)]"

definition ex_confirmed :: system where
  "ex_confirmed = run (take 2 ex_lifecycle) ex_system0"

text \<open>
  The booking row of that life after "book, confirm", and a reserve request body asking
  for 120 minutes.
\<close>

definition ex_confirmed_row :: booking_row where
  "ex_confirmed_row =
     \<lparr> b_id = ''b1'', b_user_id = ''U1'', b_route_id = ''R1'', b_schedule_id = ''S1'',
       b_seat_number = Some ''A1'', b_passenger_name = ''Ann'',
       b_passenger_email = ''ann@example.com'', b_passenger_phone = None, b_price = 2500,
       b_currency = ''USD'', b_status = CONFIRMED, b_payment_id = Some ''P9'',
       b_reserved_at = None, b_confirmed_at = Some 2000, b_cancelled_at = None,
       b_expires_at = None, b_created_at = 1000, b_updated_at = 2000 \<rparr>"

definition ex_reserve_body :: reserve_body where
  "ex_reserve_body =
     \<lparr> body_routeId = ''R1'', body_scheduleId = ''S1'', body_seatNumber = Some ''A2'',
       body_passengerName = ''Ann'', body_passengerEmail = ''ann@example.com'',
       body_passengerPhone = None, body_price = 2500, body_currency = None,
       body_reservationDurationMinutes = Some 120 \<rparr>"

section \<open>Predicates the properties are stated with\<close>

text \<open>Every schedule counter of the read store is at least zero.\<close>

definition booked_seats_nonneg :: "read_store \<Rightarrow> bool" where
  "booked_seats_nonneg rs = list_all (\<lambda>r. 0 \<le> sa_booked_seats r) (schedule_availability_view rs)"

text \<open>
  A transaction step keeps a property \<open>P\<close> of the database: whatever the step returns
  or throws, \<open>P\<close> holds of the connection's database afterwards if it held before.
\<close>

definition tx_preserves :: "(write_store \<Rightarrow> bool) \<Rightarrow> 'a tx \<Rightarrow> bool" where
  "tx_preserves P m = (\<forall>c c1 r. P (c_db c) \<longrightarrow> m c = (c1, r) \<longrightarrow> P (c_db c1))"

text \<open>
  Nothing of an expiry is in the system: no booking row has status \<open>EXPIRED\<close>, no
  event row and no published message has type \<^verbatim>\<open>TICKET_EXPIRED\<close>.
\<close>

definition no_expiry_db :: "write_store \<Rightarrow> bool" where
  "no_expiry_db db = ((\<forall>i b. bookings db i = Some b \<longrightarrow> b_status b \<noteq> EXPIRED) \<and>
                      list_all (\<lambda>e. er_event_type e \<noteq> TICKET_EXPIRED) (booking_events db))"

definition no_expiry :: "system \<Rightarrow> bool" where
  "no_expiry s = (no_expiry_db (wdb s) \<and> list_all (\<lambda>m. ev_eventType m \<noteq> TICKET_EXPIRED) (bus s))"

text \<open>
  The seat acquisition rule in the specification's words: the row is \<open>AVAILABLE\<close>, or
  \<open>LOCKED\<close> with \<open>lockedUntil < now\<close>.
\<close>

definition seat_acquirable :: "timestamp \<Rightarrow> seat_row option \<Rightarrow> bool" where
  "seat_acquirable now row =
     (case row of
        None \<Rightarrow> False
      | Some r \<Rightarrow> seat_status r = AVAILABLE \<or>
                  (seat_status r = LOCKED \<and> (\<exists>t. seat_locked_until r = Some t \<and> t < now)))"

section \<open>The list-user-tickets query: page and limit\<close>

text \<open>
  C9. A requested limit above 100 is clamped to 100, and a requested page below 1 is to
  fail with BadRequest. Evaluated at \<open>page = 0\<close>, \<open>limit = 500\<close>: the limit is
  clamped, but the guard \<^verbatim>\<open>query.page && query.page < 1\<close> is skipped for the falsy
  \<open>0\<close>, and the handler answers page 1 instead of raising.
\<close>

theorem getUserTickets_page_zero_answered:
  "snd (getUserTicketsHandler
          \<lparr> q_userId = ''U1'', q_status = None, q_page = Some 0, q_limit = Some 500 \<rparr>
          ex_read_store Map.empty)
   = Inr \<lparr> pr_data = [ex_ticket], pr_total = 1, pr_page = 1, pr_limit = 100, pr_totalPages = 1 \<rparr>"
  by (simp add: getUserTicketsHandler_def validateQuery_def truthy_num_def num_or_def
        DEFAULT_PAGE_def DEFAULT_LIMIT_def MAX_LIMIT_def ceil_div_def ex_read_store_def
        ex_ticket_def new_ticket_view_def Let_def)

lemma validateQuery_negative_page:
  "q_userId q \<noteq> [] \<Longrightarrow> q_page q = Some n \<Longrightarrow> n < 0 \<Longrightarrow>
   validateQuery q = Inl (BadRequestError ''page must be at least 1'')"
  by (simp add: validateQuery_def truthy_num_def)

section \<open>The projector and \<^verbatim>\<open>TICKET_EXPIRED\<close>\<close>

lemma processMessage_default_branch:
  assumes "msg_value msg = Some event"
    and "message_eventType msg event = TICKET_EXPIRED \<or> message_eventType msg event = TICKET_REFUNDED"
  shows "processMessage msg now rs =
           Inr (rs\<lparr> projection_checkpoints :=
                      updateCheckpoint (ev_eventId event) now (projection_checkpoints rs) \<rparr>)"
  using assms by (auto simp: processMessage_def Let_def)

text \<open>
  C4, as the code has it. The projector's \<^verbatim>\<open>switch\<close> has no case for
  \<^verbatim>\<open>TICKET_EXPIRED\<close>: the event takes the \<^verbatim>\<open>default\<close> branch, so the ticket rows
  and the schedule counters stay as they were and only the checkpoint moves to the
  event's id.
\<close>

theorem expired_event_moves_only_checkpoint:
  assumes "msg_value msg = Some event"
    and "message_eventType msg event = TICKET_EXPIRED"
  shows "\<exists>rs1. processMessage msg now rs = Inr rs1 \<and>
           user_tickets_view rs1 = user_tickets_view rs \<and>
           schedule_availability_view rs1 = schedule_availability_view rs \<and>
           projection_checkpoints rs1 = updateCheckpoint (ev_eventId event) now (projection_checkpoints rs)"
  using assms by (simp add: processMessage_def Let_def)

theorem expired_event_moves_only_checkpoint_witness:
  "\<exists>rs1. processMessage ex_expired_message 400005 ex_read_store = Inr rs1 \<and>
           user_tickets_view rs1 = [ex_ticket] \<and>
           projection_checkpoints rs1 =
             [\<lparr> cp_projection_name = ''ticket_projector'', cp_last_processed_event_id = ''p7'',
                cp_last_processed_at = 400005 \<rparr>]"
  using expired_event_moves_only_checkpoint
          [of ex_expired_message "the (msg_value ex_expired_message)" 400005 ex_read_store]
  by (auto simp: ex_expired_message_def message_eventType_def createBaseEvent_def
        ex_read_store_def updateCheckpoint_def)

text \<open>
  C4 as stated fails on the example: after the \<^verbatim>\<open>TICKET_EXPIRED\<close> event the ticket
  is still \<open>RESERVED\<close>, not \<open>EXPIRED\<close>, and the counter is still 1, not 0.
\<close>

theorem expired_event_not_projected:
  "map_sum id (\<lambda>rs1. (map tv_status (user_tickets_view rs1),
                       map sa_booked_seats (schedule_availability_view rs1)))
     (processMessage ex_expired_message 400005 ex_read_store)
   = Inr ([RESERVED], [1])"
  by (simp add: processMessage_def ex_expired_message_def message_eventType_def createBaseEvent_def
        ex_read_store_def ex_ticket_def new_ticket_view_def)

section \<open>The projector under replay\<close>

lemmas projector_defs = consume_def eachMessage_def processMessage_def message_eventType_def
  handleTicketBooked_def handleTicketReserved_def handleTicketConfirmed_def handleTicketCancelled_def
  upsert_projection_def upsert_ticket_view_def update_ticket_status_def updateScheduleAvailability_def
  updateCheckpoint_def new_ticket_view_def createBaseEvent_def

lemma updateScheduleAvailability_nonneg:
  "list_all (\<lambda>r. 0 \<le> sa_booked_seats r) rows \<Longrightarrow>
   list_all (\<lambda>r. 0 \<le> sa_booked_seats r) (updateScheduleAvailability sid d now rows)"
  by (auto simp: updateScheduleAvailability_def list_all_iff)

lemma upsert_projection_nonneg:
  "booked_seats_nonneg rs \<Longrightarrow> upsert_projection st event now rs = Inr rs1 \<Longrightarrow> booked_seats_nonneg rs1"
  unfolding booked_seats_nonneg_def upsert_projection_def Let_def
  by (cases "ev_payload event") (auto simp: updateScheduleAvailability_nonneg)

lemma handleTicketCancelled_nonneg:
  "booked_seats_nonneg rs \<Longrightarrow> handleTicketCancelled event now rs = Inr rs1 \<Longrightarrow> booked_seats_nonneg rs1"
  unfolding booked_seats_nonneg_def handleTicketCancelled_def Let_def
  by (auto simp: updateScheduleAvailability_nonneg split: option.splits)

lemma handleTicketConfirmed_nonneg:
  "booked_seats_nonneg rs \<Longrightarrow> handleTicketConfirmed event now rs = Inr rs1 \<Longrightarrow> booked_seats_nonneg rs1"
  unfolding booked_seats_nonneg_def handleTicketConfirmed_def
  by auto

lemma processMessage_nonneg:
  assumes "booked_seats_nonneg rs" and "processMessage msg now rs = Inr rs1"
  shows "booked_seats_nonneg rs1"
proof (cases "msg_value msg")
  case None
  with assms show ?thesis by (simp add: processMessage_def)
next
  case (Some event)
  define handled where "handled = (case message_eventType msg event of
                           TICKET_BOOKED \<Rightarrow> handleTicketBooked event now rs
                         | TICKET_RESERVED \<Rightarrow> handleTicketReserved event now rs
                         | TICKET_CONFIRMED \<Rightarrow> handleTicketConfirmed event now rs
                         | TICKET_CANCELLED \<Rightarrow> handleTicketCancelled event now rs
                         | _ \<Rightarrow> Inr rs)"
  from assms(2) Some obtain rs2 where h: "handled = Inr rs2"
    and r: "rs1 = rs2\<lparr> projection_checkpoints := updateCheckpoint (ev_eventId event) now (projection_checkpoints rs2) \<rparr>"
    by (auto simp: processMessage_def Let_def handled_def split: sum.splits)
  have "booked_seats_nonneg rs2"
    using h assms(1) unfolding handled_def
    by (cases "message_eventType msg event")
       (auto simp: handleTicketBooked_def handleTicketReserved_def
             dest: upsert_projection_nonneg handleTicketCancelled_nonneg handleTicketConfirmed_nonneg)
  with r show ?thesis by (simp add: booked_seats_nonneg_def)
qed

lemma eachMessage_nonneg:
  "booked_seats_nonneg rs \<Longrightarrow> booked_seats_nonneg (eachMessage tm rs)"
  by (auto simp: eachMessage_def split: sum.splits dest: processMessage_nonneg)

lemma consume_nonneg:
  "booked_seats_nonneg rs \<Longrightarrow> booked_seats_nonneg (consume msgs rs)"
  unfolding consume_def
  by (induction msgs arbitrary: rs) (auto simp: eachMessage_nonneg)

lemma find_upsert_existing:
  "find (\<lambda>r. tv_id r = tv_id row) rows = Some old \<Longrightarrow>
   find (\<lambda>r. tv_id r = tv_id row) (upsert_ticket_view row now rows)
     = Some (old\<lparr>tv_status := tv_status row, tv_updated_at := now\<rparr>)"
  by (induction rows) (auto simp: upsert_ticket_view_def list_ex_iff split: if_splits)

lemma find_updateScheduleAvailability_existing:
  "find (\<lambda>r. sa_schedule_id r = sid) rows = Some old \<Longrightarrow>
   find (\<lambda>r. sa_schedule_id r = sid) (updateScheduleAvailability sid d now rows)
     = Some (old\<lparr>sa_booked_seats := max 0 (sa_booked_seats old + d), sa_updated_at := now\<rparr>)"
  by (induction rows) (auto simp: updateScheduleAvailability_def list_ex_iff split: if_splits)

lemma upsert_projection_existing:
  assumes "ev_payload event = TicketBookedPayload b u r sid seat pn pe pr cur
           \<or> ev_payload event = TicketReservedPayload b u r sid seat pn pe pr cur ex"
    and "find (\<lambda>x. tv_id x = b) (user_tickets_view rs) = Some old"
    and "find (\<lambda>x. sa_schedule_id x = sid) (schedule_availability_view rs) = Some cnt"
  shows "\<exists>rs1. upsert_projection st event now rs = Inr rs1 \<and>
           find (\<lambda>x. tv_id x = b) (user_tickets_view rs1) = Some (old\<lparr>tv_status := st, tv_updated_at := now\<rparr>) \<and>
           find (\<lambda>x. sa_schedule_id x = sid) (schedule_availability_view rs1)
             = Some (cnt\<lparr>sa_booked_seats := max 0 (sa_booked_seats cnt + 1), sa_updated_at := now\<rparr>)"
proof -
  let ?row = "new_ticket_view b u r sid seat pn pe pr cur st (ev_timestamp event) now"
  have id: "tv_id ?row = b" and st: "tv_status ?row = st" by (simp_all add: new_ticket_view_def)
  from find_upsert_existing[of ?row "user_tickets_view rs" old now] assms(2) id st
  have 1: "find (\<lambda>x. tv_id x = b) (upsert_ticket_view ?row now (user_tickets_view rs))
            = Some (old\<lparr>tv_status := st, tv_updated_at := now\<rparr>)" by simp
  note 2 = find_updateScheduleAvailability_existing[OF assms(3), of 1 now]
  from assms(1) show ?thesis
    by (auto simp: upsert_projection_def Let_def 1 2)
qed

text \<open>
  C3, as the code has it. The schedule counters never go below zero, whatever stream the
  projector consumes. The projector is not idempotent, though: a \<^verbatim>\<open>TICKET_BOOKED\<close>
  (\<^verbatim>\<open>TICKET_RESERVED\<close>) event applied to an existing ticket row overwrites its status
  with \<open>PENDING\<close> (\<open>RESERVED\<close>), whatever the status was, and adds 1 to the
  schedule's counter again.
\<close>

theorem projector_replay_amended:
  "(booked_seats_nonneg rs \<longrightarrow> booked_seats_nonneg (consume msgs rs)) \<and>
   (msg_value msg = Some event \<and>
    ((message_eventType msg event = TICKET_BOOKED \<and> st = PENDING \<and>
      ev_payload event = TicketBookedPayload b u r sid seat pn pe pr cur) \<or>
     (message_eventType msg event = TICKET_RESERVED \<and> st = RESERVED \<and>
      ev_payload event = TicketReservedPayload b u r sid seat pn pe pr cur ex)) \<and>
    find (\<lambda>x. tv_id x = b) (user_tickets_view rs) = Some old \<and>
    find (\<lambda>x. sa_schedule_id x = sid) (schedule_availability_view rs) = Some cnt
    \<longrightarrow> (\<exists>rs1. processMessage msg now rs = Inr rs1 \<and>
           find (\<lambda>x. tv_id x = b) (user_tickets_view rs1)
             = Some (old\<lparr>tv_status := st, tv_updated_at := now\<rparr>) \<and>
           find (\<lambda>x. sa_schedule_id x = sid) (schedule_availability_view rs1)
             = Some (cnt\<lparr>sa_booked_seats := max 0 (sa_booked_seats cnt + 1), sa_updated_at := now\<rparr>)))"
proof (intro conjI impI)
  assume "booked_seats_nonneg rs"
  then show "booked_seats_nonneg (consume msgs rs)" by (rule consume_nonneg)
next
  assume a: "msg_value msg = Some event \<and>
    ((message_eventType msg event = TICKET_BOOKED \<and> st = PENDING \<and>
      ev_payload event = TicketBookedPayload b u r sid seat pn pe pr cur) \<or>
     (message_eventType msg event = TICKET_RESERVED \<and> st = RESERVED \<and>
      ev_payload event = TicketReservedPayload b u r sid seat pn pe pr cur ex)) \<and>
    find (\<lambda>x. tv_id x = b) (user_tickets_view rs) = Some old \<and>
    find (\<lambda>x. sa_schedule_id x = sid) (schedule_availability_view rs) = Some cnt"
  then have pl: "ev_payload event = TicketBookedPayload b u r sid seat pn pe pr cur
           \<or> ev_payload event = TicketReservedPayload b u r sid seat pn pe pr cur ex" by blast
  from a have ro: "find (\<lambda>x. tv_id x = b) (user_tickets_view rs) = Some old"
    and cn: "find (\<lambda>x. sa_schedule_id x = sid) (schedule_availability_view rs) = Some cnt" by blast+
  from upsert_projection_existing[OF pl ro cn, of st now]
  obtain rs1 where u: "upsert_projection st event now rs = Inr rs1"
    and f1: "find (\<lambda>x. tv_id x = b) (user_tickets_view rs1) = Some (old\<lparr>tv_status := st, tv_updated_at := now\<rparr>)"
    and f2: "find (\<lambda>x. sa_schedule_id x = sid) (schedule_availability_view rs1)
             = Some (cnt\<lparr>sa_booked_seats := max 0 (sa_booked_seats cnt + 1), sa_updated_at := now\<rparr>)"
    by blast
  from a u have "processMessage msg now rs =
      Inr (rs1\<lparr> projection_checkpoints := updateCheckpoint (ev_eventId event) now (projection_checkpoints rs1) \<rparr>)"
    by (auto simp: processMessage_def Let_def handleTicketBooked_def handleTicketReserved_def)
  with f1 f2 show "\<exists>rs1. processMessage msg now rs = Inr rs1 \<and>
           find (\<lambda>x. tv_id x = b) (user_tickets_view rs1)
             = Some (old\<lparr>tv_status := st, tv_updated_at := now\<rparr>) \<and>
           find (\<lambda>x. sa_schedule_id x = sid) (schedule_availability_view rs1)
             = Some (cnt\<lparr>sa_booked_seats := max 0 (sa_booked_seats cnt + 1), sa_updated_at := now\<rparr>)"
    by simp
qed

text \<open>
  C3 as stated fails on the stream "booked, confirmed" of one booking: consumed once the
  counter of the schedule is 1, consumed twice it is 2; and a replayed
  \<^verbatim>\<open>TICKET_BOOKED\<close> after \<^verbatim>\<open>TICKET_CONFIRMED\<close> takes the ticket back from
  \<open>CONFIRMED\<close> to \<open>PENDING\<close>.
\<close>

theorem projector_replay_counterexample:
  "map sa_booked_seats (schedule_availability_view (consume ex_stream empty_read_store)) = [1] \<and>
   map sa_booked_seats (schedule_availability_view (consume (ex_stream @ ex_stream) empty_read_store)) = [2] \<and>
   map tv_status (user_tickets_view (consume ex_stream empty_read_store)) = [CONFIRMED] \<and>
   map tv_status (user_tickets_view (consume (ex_stream @ [(3001, ex_booked_message)]) empty_read_store)) = [PENDING]"
  by (simp add: projector_defs ex_stream_def ex_booked_message_def ex_confirmed_message_def empty_read_store_def)


text \<open>
  The first part on the example stream replayed into the store it produced, the second
  on the replayed \<^verbatim>\<open>TICKET_BOOKED\<close> message meeting the confirmed ticket: the
  status goes back to \<open>PENDING\<close> and the counter goes from 1 to 2.
\<close>

theorem projector_replay_amended_witness:
  "booked_seats_nonneg (consume ex_stream ex_confirmed_store) \<and>
   (\<exists>rs1. processMessage ex_booked_message 3001 ex_confirmed_store = Inr rs1 \<and>
      find (\<lambda>x. tv_id x = ''b1'') (user_tickets_view rs1)
        = Some (ex_confirmed_ticket\<lparr>tv_status := PENDING, tv_updated_at := 3001\<rparr>) \<and>
      find (\<lambda>x. sa_schedule_id x = ''S1'') (schedule_availability_view rs1)
        = Some (ex_counter\<lparr>sa_booked_seats := 2, sa_updated_at := 3001\<rparr>))"
  using projector_replay_amended
          [where rs = ex_confirmed_store and msgs = ex_stream and msg = ex_booked_message
             and event = "the (msg_value ex_booked_message)" and st = PENDING
             and b = "''b1''" and u = "''U1''" and r = "''R1''" and sid = "''S1''"
             and seat = "Some ''A1''" and pn = "''Ann''" and pe = "''ann@example.com''"
             and pr = 2500 and cur = "''USD''" and ex = 0
             and old = ex_confirmed_ticket and cnt = ex_counter and now = 3001]
  by (simp add: ex_confirmed_store_def ex_booked_message_def ex_confirmed_ticket_def ex_counter_def
        booked_seats_nonneg_def message_eventType_def createBaseEvent_def new_ticket_view_def)

section \<open>Unfolding the handlers\<close>

lemmas tx_defs = tx_bind_def tx_return_def tx_throw_def client_query_def no_rows_def transaction_def

lemmas stmt_defs = select_booking_def update_booking_def insert_booking_def update_seat_def
  insert_event_def select_available_seat_def select_reservable_seat_def returned_row_def mapRowToBooking_def

lemmas handler_defs = bookTicketHandler_def reserveTicketHandler_def confirmTicketHandler_def
  cancelTicketHandler_def validateBookTicketCommand_def validateReserveTicketCommand_def
  validateConfirmTicketCommand_def validateCancelTicketCommand_def
  book_callback_def reserve_callback_def confirm_callback_def cancel_callback_def
  tag_result_def publishEvent_def truthy_str_def str_or_def str_or_null_def num_or_def
  DEFAULT_RESERVATION_DURATION_MINUTES_def cancellableStates_def seat_not_available_def
  money_or_undefined_def

lemmas ex_defs = ex_confirmed_def ex_confirmed_row_def ex_reserve_body_def ex_env_def ex_seat_free_def ex_system0_def ex_book_command_def
  ex_reserve_command_def ex_reserved_def ex_lifecycle_def ex_overdue_steps_def

section \<open>Transactions and what they keep\<close>

lemma transaction_error:
  "transaction fault cb db = (db1, Inl e) \<Longrightarrow> db1 = db"
  by (auto simp: transaction_def split: prod.splits sum.splits)

lemma handler_error_keeps_state:
  "(case v of Inl e \<Rightarrow> (s, Inl e)
    | Inr u \<Rightarrow> (case transaction fault cb (wdb s) of
                   (db1, Inl e) \<Rightarrow> (s\<lparr>wdb := db1\<rparr>, Inl e)
                 | (db1, Inr r) \<Rightarrow> (g db1 r, Inr r))) = (s1, Inl e)
   \<Longrightarrow> s1 = s"
  by (auto split: sum.splits prod.splits dest: transaction_error)

text \<open>
  C10. Every command is atomic on error: whenever a command returns an error (from its
  validation, from a check inside the transaction, or because a statement, \<^verbatim>\<open>BEGIN\<close>
  or \<^verbatim>\<open>COMMIT\<close> raised), the write database and the topic are exactly as before
  the call: the transaction was rolled back and nothing was published.
\<close>

theorem command_error_keeps_state:
  "execute ev cmd corr s = (s1, Inl e) \<Longrightarrow> s1 = s"
proof (cases cmd)
  case (BookTicket c)
  assume "execute ev cmd corr s = (s1, Inl e)"
  with BookTicket have "bookTicketHandler ev c corr s = (s1, Inl e)"
    by (auto simp: tag_result_def split: prod.splits sum.splits)
  then show ?thesis unfolding bookTicketHandler_def by (rule handler_error_keeps_state)
next
  case (ReserveTicket c)
  assume "execute ev cmd corr s = (s1, Inl e)"
  with ReserveTicket have "reserveTicketHandler ev c corr s = (s1, Inl e)"
    by (auto simp: tag_result_def split: prod.splits sum.splits)
  then show ?thesis unfolding reserveTicketHandler_def Let_def by (rule handler_error_keeps_state)
next
  case (ConfirmTicket c)
  assume "execute ev cmd corr s = (s1, Inl e)"
  with ConfirmTicket have "confirmTicketHandler ev c corr s = (s1, Inl e)"
    by (auto simp: tag_result_def split: prod.splits sum.splits)
  then show ?thesis unfolding confirmTicketHandler_def by (rule handler_error_keeps_state)
next
  case (CancelTicket c)
  assume "execute ev cmd corr s = (s1, Inl e)"
  with CancelTicket have "cancelTicketHandler ev c corr s = (s1, Inl e)"
    by (auto simp: tag_result_def split: prod.splits sum.splits)
  then show ?thesis unfolding cancelTicketHandler_def by (rule handler_error_keeps_state)
qed

text \<open>
  An instance in which the rollback has work to do: cancelling the reservation \<open>b2\<close>
  with the fourth statement of the transaction (the event insert) failing. When it
  fails, the connection has already set the booking to \<open>CANCELLED\<close>; the command
  returns the database error and the state it started from.
\<close>

lemma cancel_callback_writes_before_fault:
  "map_option b_status
     (bookings (c_db (fst (cancel_callback (ex_env 400000 ''e3'' ''p3'' [] (Some 4))
                             \<lparr> cn_bookingId = ''b2'', cn_userId = Some ''U1'', cn_reason = None \<rparr> None
                             \<lparr> c_db = wdb ex_reserved, c_count = 1 \<rparr>))) ''b2'')
   = Some CANCELLED"
  by (simp add: ex_defs handler_defs tx_defs stmt_defs Let_def)

theorem command_error_keeps_state_witness:
  "execute (ex_env 400000 ''e3'' ''p3'' [] (Some 4))
     (CancelTicket \<lparr> cn_bookingId = ''b2'', cn_userId = Some ''U1'', cn_reason = None \<rparr>) None ex_reserved
   = (ex_reserved, Inl (DatabaseError ''statement failed''))"
proof -
  let ?out = "execute (ex_env 400000 ''e3'' ''p3'' [] (Some 4))
     (CancelTicket \<lparr> cn_bookingId = ''b2'', cn_userId = Some ''U1'', cn_reason = None \<rparr>) None ex_reserved"
  have r: "snd ?out = Inl (DatabaseError ''statement failed'')"
    by (simp add: ex_defs handler_defs tx_defs stmt_defs Let_def)
  then have "?out = (fst ?out, Inl (DatabaseError ''statement failed''))"
    by (metis prod.collapse)
  from command_error_keeps_state[OF this] r show ?thesis by (metis prod.collapse)
qed

section \<open>No command expires a reservation\<close>

lemma tx_preserves_return: "tx_preserves P (tx_return a)"
  by (simp add: tx_preserves_def tx_return_def)

lemma tx_preserves_throw: "tx_preserves P (tx_throw e)"
  by (simp add: tx_preserves_def tx_throw_def)

lemma tx_preserves_bind:
  assumes m: "tx_preserves P m" and f: "\<And>a. tx_preserves P (f a)"
  shows "tx_preserves P (tx_bind m f)"
  unfolding tx_preserves_def
proof (intro allI impI)
  fix c c1 r
  assume P: "P (c_db c)" and run: "tx_bind m f c = (c1, r)"
  obtain c2 r2 where mc: "m c = (c2, r2)" by (cases "m c")
  from m P mc have P2: "P (c_db c2)" unfolding tx_preserves_def by blast
  show "P (c_db c1)"
  proof (cases r2)
    case (Inl e)
    with run mc have "c1 = c2" by (simp add: tx_bind_def)
    with P2 show ?thesis by simp
  next
    case (Inr a)
    with run mc have "f a c2 = (c1, r)" by (simp add: tx_bind_def)
    with f[of a] P2 show ?thesis unfolding tx_preserves_def by blast
  qed
qed

lemma tx_preserves_query:
  "(\<And>db db1 r. P db \<Longrightarrow> stmt db = Inr (db1, r) \<Longrightarrow> P db1) \<Longrightarrow> tx_preserves P (client_query fault stmt)"
  unfolding tx_preserves_def client_query_def
  by (auto split: if_splits sum.splits)

lemma transaction_preserves:
  "tx_preserves P cb \<Longrightarrow> P db \<Longrightarrow> transaction fault cb db = (db1, r) \<Longrightarrow> P db1"
  unfolding tx_preserves_def transaction_def client_query_def no_rows_def
  by (auto split: if_splits sum.splits prod.splits) (metis client.select_convs(1))+

lemma tx_preserves_if:
  "(b \<Longrightarrow> tx_preserves P m) \<Longrightarrow> (\<not> b \<Longrightarrow> tx_preserves P n) \<Longrightarrow> tx_preserves P (if b then m else n)"
  by simp

lemma tx_preserves_case_option:
  "(x = None \<Longrightarrow> tx_preserves P m) \<Longrightarrow> (\<And>v. x = Some v \<Longrightarrow> tx_preserves P (f v))
   \<Longrightarrow> tx_preserves P (case x of None \<Rightarrow> m | Some v \<Rightarrow> f v)"
  by (cases x) simp_all

lemma q_select_booking: "tx_preserves P (client_query fault (select_booking bid))"
  by (rule tx_preserves_query) (auto simp: select_booking_def)

lemma q_select_available_seat: "tx_preserves P (client_query fault (select_available_seat a b))"
  by (rule tx_preserves_query) (auto simp: select_available_seat_def)

lemma q_select_reservable_seat: "tx_preserves P (client_query fault (select_reservable_seat a b t))"
  by (rule tx_preserves_query) (auto simp: select_reservable_seat_def)

lemma q_update_seat_no_expiry: "tx_preserves no_expiry_db (client_query fault (update_seat a b f t))"
  by (rule tx_preserves_query) (auto simp: update_seat_def no_expiry_db_def split: option.splits)

lemma q_insert_event_no_expiry:
  "er_event_type ev \<noteq> TICKET_EXPIRED \<Longrightarrow> tx_preserves no_expiry_db (client_query fault (insert_event ev))"
  by (rule tx_preserves_query) (auto simp: insert_event_def no_expiry_db_def split: if_splits)

lemma q_insert_booking_no_expiry:
  "b_status row \<noteq> EXPIRED \<Longrightarrow> tx_preserves no_expiry_db (client_query fault (insert_booking row))"
  by (rule tx_preserves_query) (auto simp: insert_booking_def no_expiry_db_def split: option.splits if_splits)

lemma q_update_booking_no_expiry:
  "(\<And>x. b_status (f x) \<noteq> EXPIRED) \<Longrightarrow> tx_preserves no_expiry_db (client_query fault (update_booking bid f t))"
  by (rule tx_preserves_query) (auto simp: update_booking_def no_expiry_db_def Let_def split: option.splits if_splits)

lemma returned_row_preserves: "tx_preserves P (returned_row r)"
  by (cases r) (simp_all add: returned_row_def tx_preserves_return tx_preserves_throw)

lemmas tx_intros = tx_preserves_return tx_preserves_throw tx_preserves_bind tx_preserves_if
  tx_preserves_case_option returned_row_preserves
  q_select_booking q_select_available_seat q_select_reservable_seat q_update_seat_no_expiry
  q_insert_event_no_expiry q_insert_booking_no_expiry q_update_booking_no_expiry

lemma book_callback_no_expiry: "tx_preserves no_expiry_db (book_callback ev c corr)"
  unfolding book_callback_def Let_def
  by (intro tx_intros; simp)

lemma reserve_callback_no_expiry: "tx_preserves no_expiry_db (reserve_callback ev c d corr)"
  unfolding reserve_callback_def Let_def
  by (intro tx_intros; simp)

lemma confirm_callback_no_expiry: "tx_preserves no_expiry_db (confirm_callback ev c corr)"
  unfolding confirm_callback_def Let_def
  by (intro tx_intros; simp)

lemma cancel_callback_no_expiry: "tx_preserves no_expiry_db (cancel_callback ev c corr)"
  unfolding cancel_callback_def Let_def
  by (intro tx_intros; simp)

lemma publish_no_expiry:
  "list_all (\<lambda>m. ev_eventType m \<noteq> TICKET_EXPIRED) topic \<Longrightarrow> ev_eventType e \<noteq> TICKET_EXPIRED \<Longrightarrow>
   list_all (\<lambda>m. ev_eventType m \<noteq> TICKET_EXPIRED) (publishEvent ok e topic)"
  by (simp add: publishEvent_def)

lemma bookTicketHandler_no_expiry:
  assumes "no_expiry s" shows "no_expiry (fst (bookTicketHandler ev c corr s))"
proof (cases "validateBookTicketCommand c")
  case (Inl e)
  with assms show ?thesis by (simp add: bookTicketHandler_def)
next
  case (Inr u)
  obtain db1 r where t: "transaction (e_fault ev) (book_callback ev c corr) (wdb s) = (db1, r)"
    by (cases "transaction (e_fault ev) (book_callback ev c corr) (wdb s)")
  from assms have "no_expiry_db (wdb s)" by (simp add: no_expiry_def)
  from transaction_preserves[OF book_callback_no_expiry this t] have "no_expiry_db db1" .
  with assms Inr t show ?thesis
    by (cases r) (auto simp: bookTicketHandler_def no_expiry_def ticketBookedEvent_def createBaseEvent_def
                     intro!: publish_no_expiry)
qed

lemma reserveTicketHandler_no_expiry:
  assumes "no_expiry s" shows "no_expiry (fst (reserveTicketHandler ev c corr s))"
proof (cases "validateReserveTicketCommand c")
  case (Inl e)
  with assms show ?thesis by (simp add: reserveTicketHandler_def)
next
  case (Inr u)
  let ?d = "num_or (rv_reservationDurationMinutes c) DEFAULT_RESERVATION_DURATION_MINUTES"
  obtain db1 r where t: "transaction (e_fault ev) (reserve_callback ev c ?d corr) (wdb s) = (db1, r)"
    by (cases "transaction (e_fault ev) (reserve_callback ev c ?d corr) (wdb s)")
  from assms have "no_expiry_db (wdb s)" by (simp add: no_expiry_def)
  from transaction_preserves[OF reserve_callback_no_expiry this t] have "no_expiry_db db1" .
  with assms Inr t show ?thesis
    by (cases r) (auto simp: reserveTicketHandler_def no_expiry_def ticketReservedEvent_def createBaseEvent_def
                     intro!: publish_no_expiry)
qed

lemma confirmTicketHandler_no_expiry:
  assumes "no_expiry s" shows "no_expiry (fst (confirmTicketHandler ev c corr s))"
proof (cases "validateConfirmTicketCommand c")
  case (Inl e)
  with assms show ?thesis by (simp add: confirmTicketHandler_def)
next
  case (Inr u)
  obtain db1 r where t: "transaction (e_fault ev) (confirm_callback ev c corr) (wdb s) = (db1, r)"
    by (cases "transaction (e_fault ev) (confirm_callback ev c corr) (wdb s)")
  from assms have "no_expiry_db (wdb s)" by (simp add: no_expiry_def)
  from transaction_preserves[OF confirm_callback_no_expiry this t] have "no_expiry_db db1" .
  with assms Inr t show ?thesis
    by (cases r) (auto simp: confirmTicketHandler_def no_expiry_def ticketConfirmedEvent_def createBaseEvent_def
                     intro!: publish_no_expiry)
qed

lemma cancelTicketHandler_no_expiry:
  assumes "no_expiry s" shows "no_expiry (fst (cancelTicketHandler ev c corr s))"
proof (cases "validateCancelTicketCommand c")
  case (Inl e)
  with assms show ?thesis by (simp add: cancelTicketHandler_def)
next
  case (Inr u)
  obtain db1 r where t: "transaction (e_fault ev) (cancel_callback ev c corr) (wdb s) = (db1, r)"
    by (cases "transaction (e_fault ev) (cancel_callback ev c corr) (wdb s)")
  from assms have "no_expiry_db (wdb s)" by (simp add: no_expiry_def)
  from transaction_preserves[OF cancel_callback_no_expiry this t] have "no_expiry_db db1" .
  with assms Inr t show ?thesis
    by (cases r) (auto simp: cancelTicketHandler_def no_expiry_def ticketCancelledEvent_def createBaseEvent_def
                     intro!: publish_no_expiry)
qed

lemma fst_tag_result: "fst (tag_result tag out) = fst out"
  by (auto simp: tag_result_def split: prod.splits sum.splits)

lemma execute_no_expiry:
  "no_expiry s \<Longrightarrow> no_expiry (fst (execute ev cmd corr s))"
  by (cases cmd)
     (simp_all add: fst_tag_result bookTicketHandler_no_expiry reserveTicketHandler_no_expiry
        confirmTicketHandler_no_expiry cancelTicketHandler_no_expiry)

lemma ex_reserved_no_expiry: "no_expiry ex_reserved"
  by (auto simp: no_expiry_def no_expiry_db_def ex_defs handler_defs tx_defs stmt_defs Let_def
        ticketReservedEvent_def createBaseEvent_def split: if_splits)

text \<open>
  C2, as the code has it. There is no expiry sweeper: the four commands are all that
  writes the write database or publishes, and none of them sets a booking's status to
  \<open>EXPIRED\<close>, inserts a \<^verbatim>\<open>TICKET_EXPIRED\<close> event row or publishes a
  \<^verbatim>\<open>TICKET_EXPIRED\<close> message. So from a state without any of these, no sequence of
  commands reaches a state with one, however late the clock.
\<close>

theorem no_command_expires:
  "no_expiry s \<Longrightarrow> no_expiry (run steps s)"
  by (induction steps s rule: run.induct) (simp_all add: execute_no_expiry)

text \<open>
  The invariant on a run: a five-minute reservation made at time 0 and a confirmation
  attempt at minute 6. The attempt is refused and the booking is still \<open>RESERVED\<close>.
\<close>

theorem no_command_expires_witness:
  "no_expiry ex_system0 \<and> no_expiry (run ex_overdue_steps ex_system0) \<and>
   map_option b_status (bookings (wdb (run ex_overdue_steps ex_system0)) ''b2'') = Some RESERVED"
proof -
  have 0: "no_expiry ex_system0"
    by (simp add: no_expiry_def no_expiry_db_def ex_system0_def)
  from no_command_expires[OF 0, of ex_overdue_steps] have 1: "no_expiry (run ex_overdue_steps ex_system0)" .
  have 2: "map_option b_status (bookings (wdb (run ex_overdue_steps ex_system0)) ''b2'') = Some RESERVED"
    by (simp add: ex_defs handler_defs tx_defs stmt_defs Let_def)
  from 0 1 2 show ?thesis by blast
qed

text \<open>
  C2 as stated fails on the reservation \<open>b2\<close>, which expires at 300000 ms: whatever
  command runs next, at whatever time and with whatever arguments, the booking is not
  \<open>EXPIRED\<close> afterwards and no \<^verbatim>\<open>TICKET_EXPIRED\<close> message is on the topic.
\<close>

theorem overdue_reservation_never_expired:
  "map_option b_status (bookings (wdb ex_reserved) ''b2'') = Some RESERVED \<and>
   map_option b_expires_at (bookings (wdb ex_reserved) ''b2'') = Some (Some 300000) \<and>
   \<not> (\<exists>ev cmd corr b. bookings (wdb (fst (execute ev cmd corr ex_reserved))) ''b2'' = Some b \<and>
                       b_status b = EXPIRED) \<and>
   \<not> (\<exists>ev cmd corr m. m \<in> set (bus (fst (execute ev cmd corr ex_reserved))) \<and>
                       ev_eventType m = TICKET_EXPIRED)"
proof -
  have 1: "map_option b_status (bookings (wdb ex_reserved) ''b2'') = Some RESERVED"
    and 2: "map_option b_expires_at (bookings (wdb ex_reserved) ''b2'') = Some (Some 300000)"
    by (simp_all add: ex_defs handler_defs tx_defs stmt_defs Let_def)
  have inv: "no_expiry (fst (execute ev cmd corr ex_reserved))" for ev cmd corr
    by (rule execute_no_expiry[OF ex_reserved_no_expiry])
  have 3: "\<not> (\<exists>ev cmd corr b. bookings (wdb (fst (execute ev cmd corr ex_reserved))) ''b2'' = Some b \<and>
                       b_status b = EXPIRED)"
    using inv by (auto simp: no_expiry_def no_expiry_db_def)
  have 4: "\<not> (\<exists>ev cmd corr m. m \<in> set (bus (fst (execute ev cmd corr ex_reserved))) \<and>
                       ev_eventType m = TICKET_EXPIRED)"
    using inv by (auto simp: no_expiry_def list_all_iff)
  from 1 2 3 4 show ?thesis by blast
qed

section \<open>Event versions\<close>

text \<open>
  C1. Each transition is to write one event row whose version is the previous version
  plus 1, so that the number of a booking's event rows is its current version. Evaluated
  on "book, confirm, cancel" of one booking: three rows are written, one per command, but
  both \<^verbatim>\<open>confirmTicket.ts\<close> and \<^verbatim>\<open>cancelTicket.ts\<close> insert the literal version
  \<^verbatim>\<open>2\<close>, so the versions are 1, 2, 2 and not 1, 2, 3.
\<close>

theorem lifecycle_event_versions:
  "map er_event_type (booking_events (wdb (run ex_lifecycle ex_system0)))
     = [TICKET_BOOKED, TICKET_CONFIRMED, TICKET_CANCELLED] \<and>
   map er_aggregate_id (booking_events (wdb (run ex_lifecycle ex_system0))) = [''b1'', ''b1'', ''b1''] \<and>
   map er_version (booking_events (wdb (run ex_lifecycle ex_system0))) = [1, 2, 2]"
  by (simp add: ex_defs handler_defs tx_defs stmt_defs Let_def)

section \<open>The outcomes of Confirm\<close>

lemma confirm_not_found:
  assumes "cf_bookingId c \<noteq> []" "cf_paymentId c \<noteq> []" "e_fault ev = None"
    and "bookings (wdb s) (cf_bookingId c) = None"
  shows "confirmTicketHandler ev c corr s = (s, Inl (BookingNotFoundError (cf_bookingId c)))"
  using assms
  by (simp add: confirmTicketHandler_def validateConfirmTicketCommand_def confirm_callback_def
        tx_defs select_booking_def Let_def)

lemma confirm_bad_state:
  assumes "cf_bookingId c \<noteq> []" "cf_paymentId c \<noteq> []" "e_fault ev = None"
    and "bookings (wdb s) (cf_bookingId c) = Some b"
    and "b_status b \<noteq> RESERVED \<and> b_status b \<noteq> PENDING"
  shows "confirmTicketHandler ev c corr s = (s, Inl (InvalidBookingStateError (b_status b) ''RESERVED or PENDING''))"
  using assms
  by (simp add: confirmTicketHandler_def validateConfirmTicketCommand_def confirm_callback_def
        tx_defs select_booking_def Let_def)

lemma confirm_expired:
  assumes "cf_bookingId c \<noteq> []" "cf_paymentId c \<noteq> []" "e_fault ev = None"
    and "bookings (wdb s) (cf_bookingId c) = Some b"
    and "b_status b = RESERVED \<or> b_status b = PENDING"
    and "\<exists>t. b_expires_at b = Some t \<and> t < e_now ev"
  shows "confirmTicketHandler ev c corr s = (s, Inl (InvalidBookingStateError (b_status b) ''Reservation has expired''))"
  using assms
  by (auto simp add: confirmTicketHandler_def validateConfirmTicketCommand_def confirm_callback_def
        tx_defs select_booking_def Let_def)

lemma confirm_success:
  assumes "cf_bookingId c \<noteq> []" "cf_paymentId c \<noteq> []" "e_fault ev = None"
    and "bookings (wdb s) (cf_bookingId c) = Some b"
    and "b_status b = RESERVED \<or> b_status b = PENDING"
    and "\<not> (\<exists>t. b_expires_at b = Some t \<and> t < e_now ev)"
    and "\<not> list_ex (\<lambda>e. er_event_id e = e_uuid ev 0) (booking_events (wdb s))"
  shows "\<exists>s1 b1. confirmTicketHandler ev c corr s = (s1, Inr b1)
           \<and> bookings (wdb s1) (cf_bookingId c) = Some b1
           \<and> b_status b1 = CONFIRMED \<and> b_payment_id b1 = Some (cf_paymentId c)
           \<and> b_confirmed_at b1 = Some (e_now ev) \<and> b_expires_at b1 = None"
  using assms
  by (auto simp add: confirmTicketHandler_def validateConfirmTicketCommand_def confirm_callback_def
        tx_defs stmt_defs Let_def split: option.splits)

text \<open>
  C7. For a Confirm command that passes validation (both identifiers given), with no
  database failure and a fresh event id: it fails with NotFound iff the booking does not
  exist; for an existing booking it fails with InvalidBookingState reporting the current
  status and the required states iff the status is neither \<open>RESERVED\<close> nor
  \<open>PENDING\<close>; for a booking in one of these it fails with InvalidBookingState
  "Reservation has expired" iff \<open>expiresAt < now\<close>; and otherwise it succeeds, the
  stored and returned booking having status \<open>CONFIRMED\<close>, the given payment id,
  \<open>confirmedAt = now\<close> and no \<open>expiresAt\<close>.
\<close>

theorem confirm_outcomes:
  assumes valid: "cf_bookingId c \<noteq> []" "cf_paymentId c \<noteq> []"
    and nofault: "e_fault ev = None"
    and fresh: "\<not> list_ex (\<lambda>e. er_event_id e = e_uuid ev 0) (booking_events (wdb s))"
  shows "(snd (confirmTicketHandler ev c corr s) = Inl (BookingNotFoundError (cf_bookingId c))
            \<longleftrightarrow> bookings (wdb s) (cf_bookingId c) = None) \<and>
         (\<forall>b. bookings (wdb s) (cf_bookingId c) = Some b \<longrightarrow>
            (snd (confirmTicketHandler ev c corr s)
               = Inl (InvalidBookingStateError (b_status b) ''RESERVED or PENDING'')
             \<longleftrightarrow> b_status b \<noteq> RESERVED \<and> b_status b \<noteq> PENDING) \<and>
            (b_status b = RESERVED \<or> b_status b = PENDING \<longrightarrow>
               (snd (confirmTicketHandler ev c corr s)
                  = Inl (InvalidBookingStateError (b_status b) ''Reservation has expired'')
                \<longleftrightarrow> (\<exists>t. b_expires_at b = Some t \<and> t < e_now ev)) \<and>
               (\<not> (\<exists>t. b_expires_at b = Some t \<and> t < e_now ev) \<longrightarrow>
                  (\<exists>s1 b1. confirmTicketHandler ev c corr s = (s1, Inr b1) \<and>
                     bookings (wdb s1) (cf_bookingId c) = Some b1 \<and>
                     b_status b1 = CONFIRMED \<and> b_payment_id b1 = Some (cf_paymentId c) \<and>
                     b_confirmed_at b1 = Some (e_now ev) \<and> b_expires_at b1 = None))))"
proof (cases "bookings (wdb s) (cf_bookingId c)")
  case None
  with confirm_not_found[OF valid nofault None] show ?thesis by simp
next
  case (Some b)
  show ?thesis
  proof (cases "b_status b \<noteq> RESERVED \<and> b_status b \<noteq> PENDING")
    case True
    with confirm_bad_state[OF valid nofault Some True] Some show ?thesis by auto
  next
    case False
    then have ok: "b_status b = RESERVED \<or> b_status b = PENDING" by simp
    show ?thesis
    proof (cases "\<exists>t. b_expires_at b = Some t \<and> t < e_now ev")
      case True
      with confirm_expired[OF valid nofault Some ok True] Some ok show ?thesis by auto
    next
      case nex: False
      from confirm_success[OF valid nofault Some ok nex fresh, of corr] Some ok nex
      show ?thesis by auto
    qed
  qed
qed

text \<open>
  The reservation \<open>b2\<close> (expiring at 300000) confirmed at 100000 with payment
  \<open>P9\<close>.
\<close>

theorem confirm_outcomes_witness:
  "\<exists>s1 b1. confirmTicketHandler (ex_env 100000 ''e2'' ''p2'' [] None)
              \<lparr> cf_bookingId = ''b2'', cf_paymentId = ''P9'' \<rparr> None ex_reserved = (s1, Inr b1) \<and>
           bookings (wdb s1) ''b2'' = Some b1 \<and>
           b_status b1 = CONFIRMED \<and> b_payment_id b1 = Some ''P9'' \<and>
           b_confirmed_at b1 = Some 100000 \<and> b_expires_at b1 = None"
  using confirm_outcomes[of "\<lparr> cf_bookingId = ''b2'', cf_paymentId = ''P9'' \<rparr>"
          "ex_env 100000 ''e2'' ''p2'' [] None" ex_reserved None]
  by (simp add: ex_defs handler_defs tx_defs stmt_defs Let_def)

section \<open>The guarantees of Cancel\<close>

text \<open>
  C5. A Cancel command on an existing booking whose status is \<open>PENDING\<close>,
  \<open>RESERVED\<close> or \<open>CONFIRMED\<close>, issued by the owner or without a user id, with no
  database failure and a fresh event id, succeeds: the stored and returned booking has
  status \<open>CANCELLED\<close>, \<open>cancelledAt = now\<close> and no \<open>expiresAt\<close>; if the
  booking has a seat, that seat's row is \<open>AVAILABLE\<close> with booking id and lock
  cleared; and the refund amount is the full price if the previous status was
  \<open>CONFIRMED\<close> and null otherwise.
\<close>

theorem cancel_guarantees:
  assumes valid: "cn_bookingId c \<noteq> []"
    and found: "bookings (wdb s) (cn_bookingId c) = Some b"
    and state: "b_status b = PENDING \<or> b_status b = RESERVED \<or> b_status b = CONFIRMED"
    and owner: "cn_userId c = None \<or> cn_userId c = Some (b_user_id b)"
    and user: "b_user_id b \<noteq> []"
    and nofault: "e_fault ev = None"
    and fresh: "\<not> list_ex (\<lambda>e. er_event_id e = e_uuid ev 0) (booking_events (wdb s))"
  shows "\<exists>s1 res. cancelTicketHandler ev c corr s = (s1, Inr res) \<and>
           bookings (wdb s1) (cn_bookingId c) = Some (cr_booking res) \<and>
           b_status (cr_booking res) = CANCELLED \<and>
           b_cancelled_at (cr_booking res) = Some (e_now ev) \<and>
           b_expires_at (cr_booking res) = None \<and>
           (\<forall>seat row. b_seat_number b = Some seat \<and> seat \<noteq> [] \<and>
                       seat_availability (wdb s) (b_schedule_id b, seat) = Some row \<longrightarrow>
              seat_availability (wdb s1) (b_schedule_id b, seat)
                = Some (row\<lparr>seat_status := AVAILABLE, seat_booking_id := None,
                            seat_locked_until := None, seat_updated_at := e_sql_now ev\<rparr>)) \<and>
           cr_refundAmount res = (if b_status b = CONFIRMED then Some (b_price b) else None)"
  using assms
  by (auto simp add: cancelTicketHandler_def validateCancelTicketCommand_def cancel_callback_def
        tx_defs stmt_defs Let_def cancellableStates_def truthy_str_def str_or_def
        split: option.splits)

text \<open>
  Cancelling the confirmed booking \<open>b1\<close> (price 2500, seat \<open>A1\<close>) at 3000.
\<close>

theorem cancel_guarantees_witness:
  "\<exists>s1 res. cancelTicketHandler (ex_env 3000 ''e3'' ''p3'' [] None)
               \<lparr> cn_bookingId = ''b1'', cn_userId = Some ''U1'', cn_reason = None \<rparr> None ex_confirmed
             = (s1, Inr res) \<and>
           b_status (cr_booking res) = CANCELLED \<and>
           b_cancelled_at (cr_booking res) = Some 3000 \<and>
           b_expires_at (cr_booking res) = None \<and>
           seat_availability (wdb s1) (''S1'', ''A1'')
             = Some \<lparr> seat_booking_id = None, seat_status = AVAILABLE, seat_locked_until = None,
                      seat_updated_at = 3000 \<rparr> \<and>
           cr_refundAmount res = Some 2500"
  using cancel_guarantees[of "\<lparr> cn_bookingId = ''b1'', cn_userId = Some ''U1'', cn_reason = None \<rparr>"
          ex_confirmed ex_confirmed_row "ex_env 3000 ''e3'' ''p3'' [] None" None]
  by (simp add: ex_defs handler_defs tx_defs stmt_defs Let_def)

section \<open>Seat acquisition and duration in Reserve\<close>

lemma reserve_refused:
  assumes valid: "validateReserveTicketCommand c = Inr ()"
    and seat: "rv_seatNumber c = Some seat" "seat \<noteq> []"
    and nofault: "e_fault ev = None"
    and no: "\<not> seat_acquirable (e_sql_now ev) (seat_availability (wdb s) (rv_scheduleId c, seat))"
  shows "reserveTicketHandler ev c corr s = (s, Inl (seat_not_available seat))"
  using assms
  by (auto simp add: reserveTicketHandler_def reserve_callback_def seat_acquirable_def
        tx_defs stmt_defs Let_def truthy_str_def str_or_def split: option.splits)

lemma reserve_acquired:
  assumes valid: "validateReserveTicketCommand c = Inr ()"
    and seat: "rv_seatNumber c = Some seat" "seat \<noteq> []"
    and nofault: "e_fault ev = None"
    and fresh: "bookings (wdb s) (e_uuid ev 0) = None"
               "\<not> list_ex (\<lambda>e. er_event_id e = e_uuid ev 1) (booking_events (wdb s))"
    and row: "seat_availability (wdb s) (rv_scheduleId c, seat) = Some row"
    and yes: "seat_acquirable (e_sql_now ev) (Some row)"
  shows "\<exists>s1 res. reserveTicketHandler ev c corr s = (s1, Inr res) \<and>
           bookings (wdb s1) (e_uuid ev 0) = Some (rr_booking res) \<and>
           b_id (rr_booking res) = e_uuid ev 0 \<and>
           b_status (rr_booking res) = RESERVED \<and>
           rr_expiresAt res = e_now ev +
             num_or (rv_reservationDurationMinutes c) DEFAULT_RESERVATION_DURATION_MINUTES * 60 * 1000 \<and>
           b_expires_at (rr_booking res) = Some (rr_expiresAt res) \<and>
           seat_availability (wdb s1) (rv_scheduleId c, seat)
             = Some (row\<lparr>seat_status := LOCKED, seat_booking_id := Some (e_uuid ev 0),
                         seat_locked_until := Some (rr_expiresAt res),
                         seat_updated_at := e_sql_now ev\<rparr>)"
  using assms
  by (auto simp add: reserveTicketHandler_def reserve_callback_def seat_acquirable_def
        tx_defs stmt_defs Let_def truthy_str_def str_or_def split: option.splits)

text \<open>
  C6. For a Reserve command that passes validation and names a seat, with no database
  failure and fresh ids: it succeeds iff the seat's row is acquirable (\<open>AVAILABLE\<close>,
  or \<open>LOCKED\<close> with \<open>lockedUntil\<close> before the database's \<open>now\<close>); otherwise it
  fails with InsufficientSeats and changes nothing; and on success the new booking is
  \<open>RESERVED\<close> with \<open>expiresAt = now + duration\<close> minutes (15 when no duration
  is given), and the seat's row is \<open>LOCKED\<close> with \<open>lockedUntil = expiresAt\<close> and
  the new booking's id.
\<close>

theorem reserve_seat_rule:
  assumes valid: "validateReserveTicketCommand c = Inr ()"
    and seat: "rv_seatNumber c = Some seat" "seat \<noteq> []"
    and nofault: "e_fault ev = None"
    and fresh: "bookings (wdb s) (e_uuid ev 0) = None"
               "\<not> list_ex (\<lambda>e. er_event_id e = e_uuid ev 1) (booking_events (wdb s))"
  shows "((\<exists>s1 res. reserveTicketHandler ev c corr s = (s1, Inr res))
            \<longleftrightarrow> seat_acquirable (e_sql_now ev) (seat_availability (wdb s) (rv_scheduleId c, seat))) \<and>
         (\<not> seat_acquirable (e_sql_now ev) (seat_availability (wdb s) (rv_scheduleId c, seat)) \<longrightarrow>
            reserveTicketHandler ev c corr s
              = (s, Inl (InsufficientSeatsError (''Seat '' @ seat @ '' is not available'')))) \<and>
         (\<forall>s1 res. reserveTicketHandler ev c corr s = (s1, Inr res) \<longrightarrow>
            bookings (wdb s1) (e_uuid ev 0) = Some (rr_booking res) \<and>
            b_status (rr_booking res) = RESERVED \<and>
            rr_expiresAt res = e_now ev +
              (case rv_reservationDurationMinutes c of
                 None \<Rightarrow> 15 | Some d \<Rightarrow> if d \<noteq> 0 then d else 15) * 60 * 1000 \<and>
            b_expires_at (rr_booking res) = Some (rr_expiresAt res) \<and>
            (\<exists>row. seat_availability (wdb s) (rv_scheduleId c, seat) = Some row \<and>
               seat_availability (wdb s1) (rv_scheduleId c, seat)
                 = Some (row\<lparr>seat_status := LOCKED, seat_booking_id := Some (b_id (rr_booking res)),
                             seat_locked_until := Some (rr_expiresAt res),
                             seat_updated_at := e_sql_now ev\<rparr>)))"
proof (cases "seat_acquirable (e_sql_now ev) (seat_availability (wdb s) (rv_scheduleId c, seat))")
  case False
  from reserve_refused[OF valid seat nofault False, of corr] False
  show ?thesis by (simp add: seat_not_available_def)
next
  case True
  then obtain row where row: "seat_availability (wdb s) (rv_scheduleId c, seat) = Some row"
    by (auto simp: seat_acquirable_def split: option.splits)
  with True have yes: "seat_acquirable (e_sql_now ev) (Some row)" by simp
  from reserve_acquired[OF valid seat nofault fresh row yes, of corr] True row
  show ?thesis
    by (auto simp: num_or_def DEFAULT_RESERVATION_DURATION_MINUTES_def split: option.splits)
qed

text \<open>
  Reserving the free seat \<open>A2\<close> for five minutes at time 0.
\<close>

theorem reserve_seat_rule_witness:
  "\<exists>s1 res. reserveTicketHandler (ex_env 0 ''b2'' ''e1'' ''p1'' None) ex_reserve_command None ex_system0
             = (s1, Inr res) \<and>
           b_status (rr_booking res) = RESERVED \<and>
           rr_expiresAt res = 300000 \<and>
           b_expires_at (rr_booking res) = Some 300000 \<and>
           seat_availability (wdb s1) (''S1'', ''A2'')
             = Some \<lparr> seat_booking_id = Some ''b2'', seat_status = LOCKED,
                      seat_locked_until = Some 300000, seat_updated_at = 0 \<rparr>"
  using reserve_seat_rule[of ex_reserve_command "''A2''" "ex_env 0 ''b2'' ''e1'' ''p1'' None" ex_system0 None]
  by (simp add: ex_defs handler_defs tx_defs stmt_defs Let_def seat_acquirable_def)

lemma issue_set: "set (issue ok path) = (if ok then {} else {path})"
  by (simp add: issue_def)

text \<open>
  C8, as the code has it. A reservation duration outside \<open>[5, 60]\<close> is refused by
  the route's schema validation, with a ValidationError that names
  \<^verbatim>\<open>reservationDurationMinutes\<close>, before the handler runs and without any change;
  the handler's own validation does not look at the duration.
\<close>

theorem reserve_duration_checked_by_schema_only:
  assumes "body_reservationDurationMinutes body = Some d" and "d < 5 \<or> 60 < d"
  shows "(\<exists>paths. reserve_route is_uuid is_email ev userId body corr s = (s, Inl (ValidationError paths)) \<and>
            ''reservationDurationMinutes'' \<in> set paths) \<and>
         validateReserveTicketCommand (c\<lparr>rv_reservationDurationMinutes := Some d\<rparr>)
           = validateReserveTicketCommand c"
proof -
  have in_set: "''reservationDurationMinutes'' \<in> set (reserveTicket_schema is_uuid is_email body)"
    using assms by (auto simp: reserveTicket_schema_def issue_set)
  then obtain p ps where "reserveTicket_schema is_uuid is_email body = p # ps"
    by (cases "reserveTicket_schema is_uuid is_email body") auto
  with in_set have "reserve_route is_uuid is_email ev userId body corr s = (s, Inl (ValidationError (p # ps)))
      \<and> ''reservationDurationMinutes'' \<in> set (p # ps)"
    by (simp add: reserve_route_def)
  then show ?thesis by (auto simp: validateReserveTicketCommand_def)
qed

text \<open>
  A request body asking for 120 minutes, sent to the route.
\<close>

theorem reserve_duration_checked_by_schema_only_witness:
  "\<exists>paths. reserve_route (\<lambda>x. True) (\<lambda>x. True) (ex_env 0 ''b2'' ''e1'' ''p1'' None) ''U1''
             ex_reserve_body ''c1'' ex_system0
           = (ex_system0, Inl (ValidationError paths)) \<and>
           ''reservationDurationMinutes'' \<in> set paths"
  using reserve_duration_checked_by_schema_only
          [of ex_reserve_body 120 "\<lambda>x. True" "\<lambda>x. True" "ex_env 0 ''b2'' ''e1'' ''p1'' None"
              "''U1''" "''c1''" ex_system0 ex_reserve_command]
  by (simp add: ex_reserve_body_def)

text \<open>
  C8 as stated fails on the Reserve command with a duration of 120 minutes: the handler
  does not fail with BadRequest, it makes a reservation that expires after 7200000 ms.
\<close>

theorem reserve_handler_accepts_long_duration:
  "map_sum id rr_expiresAt
     (snd (reserveTicketHandler (ex_env 0 ''b2'' ''e1'' ''p1'' None)
             (ex_reserve_command\<lparr>rv_reservationDurationMinutes := Some 120\<rparr>) None ex_system0))
   = Inr 7200000"
  by (simp add: ex_defs handler_defs tx_defs stmt_defs Let_def)

end
